theory Spec2Isabelle
  imports Complex_Main
begin

section \<open>Numbers and single-precision arithmetic\<close>

text \<open>
  The page of \<^verbatim>\<open>src/app/page.tsx\<close> holds its matrices as JavaScript numbers, uploads them
  as a \<^verbatim>\<open>Float32Array\<close> and submits a WGSL compute shader that multiplies them. The element type
  \<open>'a\<close> stands for the numbers; its \<open>0\<close> is the number zero (the literal \<^verbatim>\<open>0\<close> of the
  page, the literal \<^verbatim>\<open>0.0\<close> of the shader and the content of a freshly created buffer).
  The three primitives that the languages supply and the repository does not define are
  taken as parameters:
  \<^item> \<open>fround\<close>: the conversion of a number to the nearest \<^verbatim>\<open>f32\<close> value, performed by
    \<^verbatim>\<open>new Float32Array(...)\<close>;
  \<^item> \<open>fadd\<close>, \<open>fmul\<close>: the shader's \<^verbatim>\<open>+\<close> and \<^verbatim>\<open>*\<close> on \<^verbatim>\<open>f32\<close>.
  No algebraic law is assumed of them unless a theorem says so.
\<close>

record 'a f32_arith =
  fround :: "'a \<Rightarrow> 'a"
  fadd :: "'a \<Rightarrow> 'a \<Rightarrow> 'a"
  fmul :: "'a \<Rightarrow> 'a \<Rightarrow> 'a"

section \<open>Configuration constants\<close>

text \<open>
  \<^verbatim>\<open>const MATRIX_SIZE = 4; const BUFFER_SIZE = MATRIX_SIZE * MATRIX_SIZE * 4;\<close>
  The dimension is substituted into the shader text (\<^verbatim>\<open>${MATRIX_SIZE}\<close>) and used by the
  host code, so every function below takes it as the parameter \<open>n\<close>; the page is the
  instance \<open>n = MATRIX_SIZE\<close>.
\<close>

definition MATRIX_SIZE :: nat where
  "MATRIX_SIZE = 4"

definition BUFFER_SIZE :: "nat \<Rightarrow> nat" where
  "BUFFER_SIZE n = n * n * 4"

section \<open>The compute shader\<close>

text \<open>
  The resource variables of \<^verbatim>\<open>shaderCode\<close>, each with its binding number and the access
  mode it declares:
  \<^verbatim>\<open>@group(0) @binding(0) var<storage, read> matrixA: Matrix;
  @group(0) @binding(1) var<storage, read> matrixB: Matrix;
  @group(0) @binding(2) var<storage, write> matrixOut: Matrix;\<close>
\<close>

datatype access_mode = AccessRead | AccessWrite | AccessReadWrite

definition shaderCode_bindings :: "(nat \<times> access_mode) list" where
  "shaderCode_bindings = [(0, AccessRead), (1, AccessRead), (2, AccessWrite)]"

text \<open>
  WGSL admits a variable of the storage address space with the access modes \<^verbatim>\<open>read\<close> and
  \<^verbatim>\<open>read_write\<close> only. \<^verbatim>\<open>device.createShaderModule({ code: shaderCode })\<close> on a text that
  breaks the rule does not throw: it returns a shader module that is invalid. The value
  of \<open>createShaderModule\<close> is the validity of the module returned.
\<close>

definition storage_access_allowed :: "access_mode \<Rightarrow> bool" where
  "storage_access_allowed m = (m = AccessRead \<or> m = AccessReadWrite)"

definition createShaderModule :: "(nat \<times> access_mode) list \<Rightarrow> bool" where
  "createShaderModule bindings = list_all (\<lambda>(b, m). storage_access_allowed m) bindings"

text \<open>
  The body of \<^verbatim>\<open>main\<close> follows: what one invocation does when the shader runs. Index
  arithmetic in the shader is on \<^verbatim>\<open>u32\<close> and wraps around at \<open>2 ^ 32\<close>.
\<close>

definition u32 :: "nat \<Rightarrow> nat" where
  "u32 k = k mod 4294967296"

text \<open>
  A storage buffer is the list of its \<^verbatim>\<open>f32\<close> elements. The bindings are created with
  exactly \<open>BUFFER_SIZE\<close> bytes, so an in-range work item never reads out of bounds; an
  out-of-bounds read (possible only after index wrap-around) yields zero here, one of the
  behaviours WGSL allows.
\<close>

definition load :: "'a::zero list \<Rightarrow> nat \<Rightarrow> 'a" where
  "load buf k = (if k < length buf then buf ! k else 0)"

text \<open>
  The loop of \<^verbatim>\<open>main\<close>:
  \<^verbatim>\<open>for (var i: u32 = 0u; i < MATRIX_SIZE; i = i + 1u) {
    let aIndex = id.y * MATRIX_SIZE + i;
    let bIndex = i * MATRIX_SIZE + id.x;
    sum = sum + matrixA.numbers[aIndex] * matrixB.numbers[bIndex]; }\<close>
  The variable \<^verbatim>\<open>sum\<close> is the accumulator \<open>acc\<close>.
\<close>

function sum_loop ::
  "'a::zero f32_arith \<Rightarrow> nat \<Rightarrow> 'a list \<Rightarrow> 'a list \<Rightarrow> nat \<Rightarrow> nat \<Rightarrow> nat \<Rightarrow> 'a \<Rightarrow> 'a" where
  "sum_loop ar n numsA numsB idx idy i acc =
     (if i < n then
        (let aIndex = u32 (idy * n + i);
             bIndex = u32 (i * n + idx)
         in sum_loop ar n numsA numsB idx idy (i + 1)
              (fadd ar acc (fmul ar (load numsA aIndex) (load numsB bIndex))))
      else acc)"
  by pat_completeness auto
termination
  by (relation "measure (\<lambda>(ar, n, numsA, numsB, idx, idy, i, acc). n - i)") auto

text \<open>
  One invocation of \<^verbatim>\<open>main\<close> for the global invocation id \<open>(idx, idy)\<close>. The result is the
  store the invocation performs on \<^verbatim>\<open>matrixOut.numbers\<close>: \<open>None\<close> when it returns early,
  \<open>Some (index, sum)\<close> otherwise.
\<close>

definition shader_main ::
  "'a::zero f32_arith \<Rightarrow> nat \<Rightarrow> 'a list \<Rightarrow> 'a list \<Rightarrow> nat \<times> nat \<Rightarrow> (nat \<times> 'a) option" where
  "shader_main ar n numsA numsB gid =
     (let idx = fst gid; idy = snd gid in
      if idx \<ge> n \<or> idy \<ge> n then None
      else Some (u32 (idy * n + idx), sum_loop ar n numsA numsB idx idy 0 0))"

text \<open>
  Applying a store to the output buffer. A store beyond the end of the binding is
  discarded, as WGSL allows.
\<close>

definition apply_store :: "'a list \<Rightarrow> (nat \<times> 'a) option \<Rightarrow> 'a list" where
  "apply_store out w =
     (case w of None \<Rightarrow> out
      | Some (k, v) \<Rightarrow> if k < length out then out[k := v] else out)"

section \<open>The dispatch\<close>

text \<open>
  \<^verbatim>\<open>@workgroup_size(8, 8)\<close> and \<^verbatim>\<open>passEncoder.dispatchWorkgroups(1, 1)\<close>: the group counts
  are the literals of the source, whatever the dimension.
\<close>

definition workgroup_size :: "nat \<times> nat" where
  "workgroup_size = (8, 8)"

definition workgroup_counts :: "nat \<Rightarrow> nat \<times> nat" where
  "workgroup_counts n = (1, 1)"

text \<open>The global invocation ids of a dispatch with the given group counts.\<close>

definition global_invocation_ids :: "nat \<times> nat \<Rightarrow> (nat \<times> nat) list" where
  "global_invocation_ids counts =
     concat (map (\<lambda>idy. map (\<lambda>idx. (idx, idy)) [0..<fst workgroup_size * fst counts])
                 [0..<snd workgroup_size * snd counts])"

text \<open>
  Running work items one after the other in a given order. Every item reads only the two
  input bindings, so a sequential run in any order stands for the parallel run.
\<close>

definition run_items ::
  "'a::zero f32_arith \<Rightarrow> nat \<Rightarrow> 'a list \<Rightarrow> 'a list \<Rightarrow> 'a list \<Rightarrow> (nat \<times> nat) list \<Rightarrow> 'a list" where
  "run_items ar n numsA numsB out ids =
     foldl (\<lambda>buf gid. apply_store buf (shader_main ar n numsA numsB gid)) out ids"

definition dispatchWorkgroups ::
  "'a::zero f32_arith \<Rightarrow> nat \<Rightarrow> 'a list \<Rightarrow> 'a list \<Rightarrow> 'a list \<Rightarrow> nat \<times> nat \<Rightarrow> 'a list" where
  "dispatchWorkgroups ar n numsA numsB out counts =
     run_items ar n numsA numsB out (global_invocation_ids counts)"

text \<open>The group count the specification asks for: \<open>ceil (n / 8)\<close>.\<close>

definition ceil_div8 :: "nat \<Rightarrow> nat" where
  "ceil_div8 n = (n + 7) div 8"

section \<open>Host buffer codec\<close>

text \<open>
  \<^verbatim>\<open>const flatten = (matrix: number[][]) => new Float32Array(matrix.flat());\<close>
  \<^verbatim>\<open>flat()\<close> concatenates the rows; the typed array stores each number rounded to \<^verbatim>\<open>f32\<close>.
\<close>

definition flatten :: "'a f32_arith \<Rightarrow> 'a list list \<Rightarrow> 'a list" where
  "flatten ar matrix = map (fround ar) (concat matrix)"

text \<open>
  \<^verbatim>\<open>resultData.slice(begin, end)\<close> for indices that are not negative: both ends are clamped
  to the length.
\<close>

definition slice :: "'a list \<Rightarrow> nat \<Rightarrow> nat \<Rightarrow> 'a list" where
  "slice xs b e = take (e - b) (drop b xs)"

text \<open>
  \<^verbatim>\<open>for (let i = 0; i < MATRIX_SIZE; i++) {
    newResultMatrix.push(Array.from(resultData.slice(i * MATRIX_SIZE, i * MATRIX_SIZE + MATRIX_SIZE))); }\<close>
  \<^verbatim>\<open>Array.from\<close> reads every \<^verbatim>\<open>f32\<close> back as the same number.
\<close>

function reconstruct_loop :: "nat \<Rightarrow> 'a list \<Rightarrow> nat \<Rightarrow> 'a list list \<Rightarrow> 'a list list" where
  "reconstruct_loop n resultData i newResultMatrix =
     (if i < n then
        reconstruct_loop n resultData (i + 1)
          (newResultMatrix @ [slice resultData (i * n) (i * n + n)])
      else newResultMatrix)"
  by pat_completeness auto
termination
  by (relation "measure (\<lambda>(n, resultData, i, newResultMatrix). n - i)") auto

definition reconstruct :: "nat \<Rightarrow> 'a list \<Rightarrow> 'a list list" where
  "reconstruct n resultData = reconstruct_loop n resultData 0 []"

section \<open>Device buffers and the submitted work\<close>

text \<open>
  \<^verbatim>\<open>device.createBuffer({ size, usage })\<close>: \<open>size div 4\<close> elements, all zero.
\<close>

definition createBuffer :: "nat \<Rightarrow> 'a::zero list" where
  "createBuffer bytes = replicate (bytes div 4) 0"

text \<open>
  \<^verbatim>\<open>device.queue.writeBuffer(buffer, 0, data.buffer, data.byteOffset, data.byteLength)\<close>: the
  data overwrite the front of the buffer; data longer than the buffer are a validation
  error and nothing is written.
\<close>

definition writeBuffer :: "'a list \<Rightarrow> 'a list \<Rightarrow> 'a list" where
  "writeBuffer buffer data =
     (if length data \<le> length buffer then data @ drop (length data) buffer else buffer)"

text \<open>\<^verbatim>\<open>copyEncoder.copyBufferToBuffer(source, 0, destination, 0, size)\<close>.\<close>

definition copyBufferToBuffer :: "'a list \<Rightarrow> 'a list \<Rightarrow> nat \<Rightarrow> 'a list" where
  "copyBufferToBuffer source destination bytes =
     (let k = bytes div 4 in
      if k \<le> length source \<and> k \<le> length destination
      then take k source @ drop k destination else destination)"

text \<open>
  Lines 88 to 152 of the page: flatten both matrices, create and fill the buffers, create
  the shader module, the pipeline and the bind group, encode and submit the compute pass
  with its single dispatch on the result buffer, copy the result buffer into the staging
  buffer \<^verbatim>\<open>readBuffer\<close>. The value is the content of the staging buffer.

  None of \<^verbatim>\<open>createShaderModule\<close>, \<^verbatim>\<open>createComputePipeline\<close>, \<^verbatim>\<open>getBindGroupLayout\<close>,
  \<^verbatim>\<open>createBindGroup\<close>, \<^verbatim>\<open>finish\<close> and \<^verbatim>\<open>submit\<close> throws on a validation error: the object
  returned is invalid and the error goes to the error scope of the device, which the page
  does not read. A pipeline created from an invalid module is invalid, a pass that sets
  it makes its command buffer invalid, and \<^verbatim>\<open>device.queue.submit\<close> executes nothing of an
  invalid command buffer. So the dispatch runs only when the shader module is valid;
  otherwise the result buffer stays as \<^verbatim>\<open>createBuffer\<close> made it. The copy is encoded and
  submitted on its own and runs in both cases.
\<close>

definition device_work :: "'a::zero f32_arith \<Rightarrow> nat \<Rightarrow> 'a list list \<Rightarrow> 'a list list \<Rightarrow> 'a list" where
  "device_work ar n A B =
     (let aData = flatten ar A;
          bData = flatten ar B;
          aBuffer = writeBuffer (createBuffer (BUFFER_SIZE n)) aData;
          bBuffer = writeBuffer (createBuffer (BUFFER_SIZE n)) bData;
          resultBuffer = createBuffer (BUFFER_SIZE n);
          shaderModule = createShaderModule shaderCode_bindings;
          computed = (if shaderModule
                      then dispatchWorkgroups ar n aBuffer bBuffer resultBuffer (workgroup_counts n)
                      else resultBuffer);
          readBuffer = createBuffer (BUFFER_SIZE n)
      in copyBufferToBuffer computed readBuffer (BUFFER_SIZE n))"

section \<open>The orchestrator\<close>

text \<open>
  The calls of the \<^verbatim>\<open>try\<close> block that can reject or throw, in the order of the source:
  \<^verbatim>\<open>requestAdapter\<close>, \<^verbatim>\<open>requestDevice\<close>, the device work of lines 88 to 152,
  \<^verbatim>\<open>mapAsync\<close>, \<^verbatim>\<open>getMappedRange\<close>, the byte copy \<^verbatim>\<open>slice(0)\<close> with the typed-array view,
  and the construction of the result after \<^verbatim>\<open>unmap\<close>. The environment says whether
  \<^verbatim>\<open>navigator.gpu\<close> exists, whether \<^verbatim>\<open>requestAdapter\<close> resolves to an adapter, and which
  call (if any) throws, with the message of the error.
\<close>

datatype call =
  RequestAdapter | RequestDevice | DeviceWork | MapAsync | GetMappedRange | SliceCopy | BuildResult

record environment =
  navigator_gpu :: bool
  adapter_found :: bool
  thrown :: "(call \<times> string) option"

definition raises :: "environment \<Rightarrow> call \<Rightarrow> string option" where
  "raises env c =
     (case thrown env of None \<Rightarrow> None
      | Some (c', message) \<Rightarrow> if c' = c then Some message else None)"

text \<open>The map state in which a run leaves the staging buffer.\<close>

datatype map_state = NotMapped | Mapped

text \<open>
  The body of the \<^verbatim>\<open>try\<close> block: the map state of the staging buffer when control leaves
  the block, and either the message of the error thrown or the matrix handed to
  \<^verbatim>\<open>setResultMatrix\<close>. The statements run in the order of the source and the first one
  that throws ends the block. The staging buffer is mapped from the moment
  \<^verbatim>\<open>await readBuffer.mapAsync(GPUMapMode.READ)\<close> resolves until \<^verbatim>\<open>readBuffer.unmap()\<close>,
  the statement after the byte copy; a rejected \<^verbatim>\<open>mapAsync\<close> leaves it unmapped.
\<close>

definition try_block ::
  "'a::zero f32_arith \<Rightarrow> nat \<Rightarrow> environment \<Rightarrow> 'a list list \<Rightarrow> 'a list list
    \<Rightarrow> map_state \<times> (string + 'a list list)" where
  "try_block ar n env A B =
     (if \<not> navigator_gpu env
      then (NotMapped, Inl ''WebGPU is not supported on this browser.'')
      else (case raises env RequestAdapter of Some m \<Rightarrow> (NotMapped, Inl m) | None \<Rightarrow>
       (if \<not> adapter_found env
        then (NotMapped, Inl ''Failed to get GPU adapter.'')
        else (case raises env RequestDevice of Some m \<Rightarrow> (NotMapped, Inl m) | None \<Rightarrow>
         (case raises env DeviceWork of Some m \<Rightarrow> (NotMapped, Inl m) | None \<Rightarrow>
          (let readBuffer = device_work ar n A B in
           (case raises env MapAsync of Some m \<Rightarrow> (NotMapped, Inl m) | None \<Rightarrow>
            (case raises env GetMappedRange of Some m \<Rightarrow> (Mapped, Inl m) | None \<Rightarrow>
             (case raises env SliceCopy of Some m \<Rightarrow> (Mapped, Inl m) | None \<Rightarrow>
              (let resultData = readBuffer in
               (case raises env BuildResult of Some m \<Rightarrow> (NotMapped, Inl m) | None \<Rightarrow>
                (NotMapped, Inr (reconstruct n resultData)))))))))))))"

section \<open>The page state\<close>

text \<open>
  The arrays that the React state refers to live in a heap: \<^verbatim>\<open>number[]\<close> objects in
  \<open>row_store\<close>, \<^verbatim>\<open>number[][]\<close> objects (lists of row addresses) in \<open>mat_store\<close>. An address
  is allocated when it is below the store's \<open>next\<close> counter.
\<close>

record 'a heap =
  row_store :: "nat \<Rightarrow> 'a list"
  row_next :: nat
  mat_store :: "nat \<Rightarrow> nat list"
  mat_next :: nat

definition alloc_row :: "'a heap \<Rightarrow> 'a list \<Rightarrow> 'a heap \<times> nat" where
  "alloc_row h xs =
     (h\<lparr>row_store := (row_store h)(row_next h := xs), row_next := Suc (row_next h)\<rparr>, row_next h)"

definition alloc_mat :: "'a heap \<Rightarrow> nat list \<Rightarrow> 'a heap \<times> nat" where
  "alloc_mat h rs =
     (h\<lparr>mat_store := (mat_store h)(mat_next h := rs), mat_next := Suc (mat_next h)\<rparr>, mat_next h)"

definition read_matrix :: "'a heap \<Rightarrow> nat \<Rightarrow> 'a list list" where
  "read_matrix h m = map (row_store h) (mat_store h m)"

text \<open>
  \<^verbatim>\<open>a[i] = v\<close> on a JavaScript array: an index beyond the end extends the array, the
  skipped slots reading as \<^verbatim>\<open>undefined\<close> (the value \<open>hole\<close>).
\<close>

definition js_assign :: "'a \<Rightarrow> 'a list \<Rightarrow> nat \<Rightarrow> 'a \<Rightarrow> 'a list" where
  "js_assign hole xs i v =
     (if i < length xs then xs[i := v] else xs @ replicate (i - length xs) hole @ [v])"

record 'a page_state =
  heap :: "'a heap"
  matrixA :: nat
  matrixB :: nat
  resultMatrix :: "'a list list option"
  error :: "string option"
  loading :: bool

definition setMatrixA :: "nat \<Rightarrow> 'a page_state \<Rightarrow> 'a page_state" where
  "setMatrixA m s = s\<lparr>matrixA := m\<rparr>"

definition setMatrixB :: "nat \<Rightarrow> 'a page_state \<Rightarrow> 'a page_state" where
  "setMatrixB m s = s\<lparr>matrixB := m\<rparr>"

definition setResultMatrix :: "'a list list \<Rightarrow> 'a page_state \<Rightarrow> 'a page_state" where
  "setResultMatrix m s = s\<lparr>resultMatrix := Some m\<rparr>"

definition setError :: "string option \<Rightarrow> 'a page_state \<Rightarrow> 'a page_state" where
  "setError e s = s\<lparr>error := e\<rparr>"

definition setLoading :: "bool \<Rightarrow> 'a page_state \<Rightarrow> 'a page_state" where
  "setLoading b s = s\<lparr>loading := b\<rparr>"

text \<open>
  \<^verbatim>\<open>multiplyMatrices\<close>: the final page state and the map state of the staging buffer.
  The closure reads \<^verbatim>\<open>matrixA\<close> and \<^verbatim>\<open>matrixB\<close> of the state it was created in.
\<close>

definition multiply ::
  "'a::zero f32_arith \<Rightarrow> nat \<Rightarrow> environment \<Rightarrow> 'a page_state \<Rightarrow> 'a page_state \<times> map_state" where
  "multiply ar n env s =
     (let s1 = setError None s;
          s2 = setLoading True s1;
          (m, r) = try_block ar n env (read_matrix (heap s) (matrixA s))
                     (read_matrix (heap s) (matrixB s));
          s3 = (case r of
                  Inr newResultMatrix \<Rightarrow> setResultMatrix newResultMatrix s2
                | Inl message \<Rightarrow> setError (Some message) s2)
      in (setLoading False s3, m))"

definition multiplyMatrices ::
  "'a::zero f32_arith \<Rightarrow> environment \<Rightarrow> 'a page_state \<Rightarrow> 'a page_state \<times> map_state" where
  "multiplyMatrices ar env s = multiply ar MATRIX_SIZE env s"

text \<open>
  \<^verbatim>\<open>updateMatrix(matrix, setMatrix, row, col, value)\<close>:
  \<^verbatim>\<open>const num = parseFloat(value);
  const newMatrix = [...matrix];
  newMatrix[row] = [...matrix[row]];
  newMatrix[row][col] = isNaN(num) ? 0 : num;
  setMatrix(newMatrix);\<close>
  \<open>parseFloat\<close> is the parameter of that name, with \<open>None\<close> for the result \<^verbatim>\<open>NaN\<close> (the text
  has no numeric prefix). When \<open>row\<close> is beyond the outer array, \<^verbatim>\<open>matrix[row]\<close> is
  \<^verbatim>\<open>undefined\<close> and spreading it throws a \<^verbatim>\<open>TypeError\<close>; the state is then unchanged.
\<close>

datatype js_error = TypeError

definition updateMatrix ::
  "(string \<Rightarrow> 'a option) \<Rightarrow> 'a \<Rightarrow> nat \<Rightarrow> (nat \<Rightarrow> 'a page_state \<Rightarrow> 'a page_state)
    \<Rightarrow> nat \<Rightarrow> nat \<Rightarrow> string \<Rightarrow> 'a::zero page_state \<Rightarrow> js_error + 'a page_state" where
  "updateMatrix parseFloat hole matrix setMatrix row col text s =
     (let num = parseFloat text;
          (h1, newMatrix) = alloc_mat (heap s) (mat_store (heap s) matrix)
      in if row \<ge> length (mat_store h1 matrix) then Inl TypeError
         else
           let (h2, newRow) = alloc_row h1 (row_store h1 (mat_store h1 matrix ! row));
               h3 = h2\<lparr>mat_store := (mat_store h2)(newMatrix := (mat_store h2 newMatrix)[row := newRow])\<rparr>;
               target = mat_store h3 newMatrix ! row;
               h4 = h3\<lparr>row_store := (row_store h3)
                      (target := js_assign hole (row_store h3 target) col
                                   (case num of None \<Rightarrow> 0 | Some v \<Rightarrow> v))\<rparr>
           in Inr (setMatrix newMatrix (s\<lparr>heap := h4\<rparr>)))"

section \<open>Reference definitions of the specification\<close>

text \<open>
  The dot product of row \<open>row\<close> of \<open>A\<close> and column \<open>col\<close> of \<open>B\<close> as the specification
  writes it, \<open>sum_{i=0}^{n-1} A[row][i] * B[i][col]\<close>, on the two-dimensional matrices,
  in single precision, the terms added from left to right.
\<close>

definition dot_product ::
  "'a::zero f32_arith \<Rightarrow> nat \<Rightarrow> 'a list list \<Rightarrow> 'a list list \<Rightarrow> nat \<Rightarrow> nat \<Rightarrow> 'a" where
  "dot_product ar n A B row col =
     foldl (\<lambda>acc i. fadd ar acc (fmul ar (fround ar (A ! row ! i)) (fround ar (B ! i ! col))))
       0 [0..<n]"

text \<open>A matrix is \<open>n \<times> n\<close>: \<open>n\<close> rows of \<open>n\<close> elements each.\<close>

definition square :: "nat \<Rightarrow> 'a list list \<Rightarrow> bool" where
  "square n M = (length M = n \<and> list_all (\<lambda>r. length r = n) M)"

text \<open>
  \<^verbatim>\<open>xs.map((x, i) => f(x, i))\<close>: the map of JavaScript arrays, which passes the index.
\<close>

definition map_index :: "('a \<Rightarrow> nat \<Rightarrow> 'b) \<Rightarrow> 'a list \<Rightarrow> 'b list" where
  "map_index f xs = map (\<lambda>(i, x). f x i) (enumerate 0 xs)"

text \<open>
  The initial matrices of the page. \<^verbatim>\<open>createDefaultMatrix()\<close> is a matrix of zeros;
  \<^verbatim>\<open>matrixA\<close> starts as
  \<^verbatim>\<open>createDefaultMatrix().map((row, i) => row.map((_, j) => (i === j ? 1 : 0)))\<close>, the
  identity matrix, and \<^verbatim>\<open>matrixB\<close> as
  \<^verbatim>\<open>createDefaultMatrix().map((row, i) => row.map((_, j) => i * MATRIX_SIZE + j + 1))\<close>.
\<close>

definition createDefaultMatrix :: "nat \<Rightarrow> 'a::zero list list" where
  "createDefaultMatrix n = replicate n (replicate n 0)"

definition identity_matrix :: "nat \<Rightarrow> 'a::{zero,one} list list" where
  "identity_matrix n =
     map_index (\<lambda>row i. map_index (\<lambda>_ j. if i = j then 1 else 0) row)
       (createDefaultMatrix n :: 'a list list)"

definition example_matrix :: "nat \<Rightarrow> 'a::semiring_1 list list" where
  "example_matrix n =
     map_index (\<lambda>row i. map_index (\<lambda>_ j. of_nat (i * n + j + 1)) row)
       (createDefaultMatrix n :: 'a list list)"

section \<open>Concrete instances\<close>

text \<open>
  An environment in which no call fails, and the arithmetic of a semiring taken exactly.
  On integers of magnitude below \<open>2 ^ 24\<close> the \<^verbatim>\<open>f32\<close> operations are exact, so on such
  values \<open>exact_arith\<close> is \<^verbatim>\<open>f32\<close> arithmetic.
\<close>

definition ok_env :: environment where
  "ok_env = \<lparr>navigator_gpu = True, adapter_found = True, thrown = None\<rparr>"

definition exact_arith :: "'a::semiring_0 f32_arith" where
  "exact_arith = \<lparr>fround = (\<lambda>x. x), fadd = (+), fmul = (*)\<rparr>"

text \<open>The initial state of the page: the two \<^verbatim>\<open>useState\<close> initialisers.\<close>

definition empty_heap :: "'a heap" where
  "empty_heap = \<lparr>row_store = (\<lambda>a. []), row_next = 0, mat_store = (\<lambda>a. []), mat_next = 0\<rparr>"

fun alloc_rows :: "'a heap \<Rightarrow> 'a list list \<Rightarrow> 'a heap \<times> nat list" where
  "alloc_rows h [] = (h, [])"
| "alloc_rows h (r # rs) =
     (let (h1, a) = alloc_row h r; (h2, as) = alloc_rows h1 rs in (h2, a # as))"

definition store_matrix :: "'a heap \<Rightarrow> 'a list list \<Rightarrow> 'a heap \<times> nat" where
  "store_matrix h M = (let (h1, as) = alloc_rows h M in alloc_mat h1 as)"

definition page_with :: "'a list list \<Rightarrow> 'a list list \<Rightarrow> 'a page_state" where
  "page_with A B =
     (let (h1, a) = store_matrix empty_heap A;
          (h2, b) = store_matrix h1 B
      in \<lparr>heap = h2, matrixA = a, matrixB = b, resultMatrix = None, error = None,
          loading = False\<rparr>)"

definition initial_state :: "'a::semiring_1 page_state" where
  "initial_state = page_with (identity_matrix MATRIX_SIZE) (example_matrix MATRIX_SIZE)"

section \<open>The IEEE 754 binary32 instance\<close>

text \<open>
  One concrete instance of the arithmetic parameters: JavaScript numbers as rationals
  with the two infinities and \<^verbatim>\<open>NaN\<close> (the sign of zero is not kept), and \<open>fround32\<close> the
  conversion to binary32 that \<^verbatim>\<open>Float32Array\<close> performs (round to nearest, ties to even,
  gradual underflow, overflow to infinity). Its sum and product are the IEEE 754 ones,
  rounded the same way and keeping subnormal values. They are one of the arithmetics a
  WGSL device may have, not the only one: a device may also flush subnormal operands and
  results to zero, and then \<open>1 * x = x\<close> fails for a subnormal \<open>x\<close>. The statements below
  use this instance for the conversion \<open>fround\<close> of the host only.
\<close>

datatype number = Fin rat | PosInf | NegInf | NaN

instantiation number :: "{zero, one}"
begin

definition zero_number :: number where
  "zero_number = Fin 0"

definition one_number :: number where
  "one_number = Fin 1"

instance ..

end

text \<open>The number of binary digits of a positive integer.\<close>

function bit_length :: "int \<Rightarrow> int" where
  "bit_length k = (if k \<le> 0 then 0 else 1 + bit_length (k div 2))"
  by pat_completeness auto
termination
  by (relation "measure nat") auto

declare bit_length.simps [simp del]

definition pow2 :: "int \<Rightarrow> rat" where
  "pow2 e = (if e \<ge> 0 then 2 ^ nat e else 1 / 2 ^ nat (- e))"

text \<open>For \<open>a > 0\<close>, the integer \<open>e\<close> with \<open>2 ^ e \<le> a < 2 ^ (e + 1)\<close>.\<close>

definition floor_log2 :: "rat \<Rightarrow> int" where
  "floor_log2 a =
     (if a \<ge> 1 then bit_length \<lfloor>a\<rfloor> - 1
      else - bit_length (\<lceil>1 / a\<rceil> - 1))"

definition round_half_even :: "rat \<Rightarrow> int" where
  "round_half_even m =
     (let f = \<lfloor>m\<rfloor>; r = m - of_int f in
      if r < 1 / 2 then f else if r > 1 / 2 then f + 1 else if even f then f else f + 1)"

text \<open>
  A finite \<open>x \<noteq> 0\<close> lies in the binade of exponent \<open>e\<close> (at least \<open>- 126\<close>, the subnormal
  range); binary32 has 24 significant bits, so the spacing there is \<open>2 ^ (e - 23)\<close>; the
  magnitude is rounded to a multiple of the spacing, and a result of \<open>2 ^ 128\<close> or more is
  infinite.
\<close>

definition fround32 :: "number \<Rightarrow> number" where
  "fround32 v =
     (case v of
        Fin x \<Rightarrow>
          if x = 0 then Fin 0
          else
            let a = \<bar>x\<bar>;
                e = max (floor_log2 a) (- 126);
                ulp = pow2 (e - 23);
                r = of_int (round_half_even (a / ulp)) * ulp
            in if r \<ge> pow2 128 then (if x > 0 then PosInf else NegInf)
               else Fin (if x > 0 then r else - r)
      | _ \<Rightarrow> v)"

fun f32_add :: "number \<Rightarrow> number \<Rightarrow> number" where
  "f32_add (Fin a) (Fin b) = fround32 (Fin (a + b))"
| "f32_add NaN y = NaN"
| "f32_add x NaN = NaN"
| "f32_add PosInf NegInf = NaN"
| "f32_add NegInf PosInf = NaN"
| "f32_add PosInf y = PosInf"
| "f32_add x PosInf = PosInf"
| "f32_add NegInf y = NegInf"
| "f32_add x NegInf = NegInf"

text \<open>An infinity times a finite \<open>a\<close>: \<^verbatim>\<open>NaN\<close> for zero, else the infinity of the sign.\<close>

definition inf_of_sign :: "rat \<Rightarrow> number" where
  "inf_of_sign a = (if a = 0 then NaN else if a > 0 then PosInf else NegInf)"

fun f32_mul :: "number \<Rightarrow> number \<Rightarrow> number" where
  "f32_mul (Fin a) (Fin b) = fround32 (Fin (a * b))"
| "f32_mul NaN y = NaN"
| "f32_mul x NaN = NaN"
| "f32_mul (Fin a) PosInf = inf_of_sign a"
| "f32_mul (Fin a) NegInf = inf_of_sign (- a)"
| "f32_mul PosInf (Fin b) = inf_of_sign b"
| "f32_mul NegInf (Fin b) = inf_of_sign (- b)"
| "f32_mul PosInf PosInf = PosInf"
| "f32_mul NegInf NegInf = PosInf"
| "f32_mul PosInf NegInf = NegInf"
| "f32_mul NegInf PosInf = NegInf"

definition ieee32 :: "number f32_arith" where
  "ieee32 = \<lparr>fround = fround32, fadd = f32_add, fmul = f32_mul\<rparr>"

text \<open>
  Two matrices of numbers: the example matrix of the page, and the same with the number
  \<^verbatim>\<open>0.1\<close> (the double nearest to one tenth, \<open>3602879701896397 / 2 ^ 55\<close>) in its first cell.
\<close>

definition tenth :: rat where
  "tenth = 3602879701896397 / 36028797018963968"

definition tenth_matrix :: "number list list" where
  "tenth_matrix = [[Fin tenth, Fin 2, Fin 3, Fin 4], [Fin 5, Fin 6, Fin 7, Fin 8],
       [Fin 9, Fin 10, Fin 11, Fin 12], [Fin 13, Fin 14, Fin 15, Fin 16]]"

definition example_numbers :: "number list list" where
  "example_numbers = map (map Fin) (example_matrix MATRIX_SIZE)"

text \<open>Environments in which one call throws, and one without \<^verbatim>\<open>navigator.gpu\<close>.\<close>

definition failing_env :: "call \<Rightarrow> string \<Rightarrow> environment" where
  "failing_env c message = \<lparr>navigator_gpu = True, adapter_found = True, thrown = Some (c, message)\<rparr>"

definition no_gpu_env :: environment where
  "no_gpu_env = \<lparr>navigator_gpu = False, adapter_found = False, thrown = None\<rparr>"

text \<open>A stand-in for \<^verbatim>\<open>parseFloat\<close> on two texts: \<^verbatim>\<open>"7"\<close> parses, anything else does not.\<close>

definition parse_digit :: "string \<Rightarrow> int option" where
  "parse_digit t = (if t = ''7'' then Some 7 else None)"

definition no_adapter_env :: environment where
  "no_adapter_env = \<lparr>navigator_gpu = True, adapter_found = False, thrown = None\<rparr>"

text \<open>The page state with the example matrix as A and the identity matrix as B.\<close>

definition swapped_state :: "int page_state" where
  "swapped_state = page_with (example_matrix MATRIX_SIZE) (identity_matrix MATRIX_SIZE)"

declare sum_loop.simps [simp del]

declare reconstruct_loop.simps [simp del]

section \<open>Auxiliary facts\<close>

lemma u32_le: "u32 k \<le> k"
  by (simp add: u32_def)

lemma shader_main_in_range:
  assumes "shader_main ar n numsA numsB (idx, idy) = Some (k, v)"
  shows "idx < n \<and> idy < n \<and> k < n * n"
proof -
  from assms have rng: "idx < n" "idy < n" and k: "k = u32 (idy * n + idx)"
    by (auto simp: shader_main_def Let_def split: if_splits)
  have "idy * n + idx < Suc idy * n"
    using rng by simp
  also have "\<dots> \<le> n * n"
    using rng by (simp add: Suc_leI mult_le_mono1 del: mult_Suc)
  finally have "idy * n + idx < n * n" .
  with k u32_le [of "idy * n + idx"] rng show ?thesis
    by simp
qed

lemma sum_loop_foldl:
  "sum_loop ar n numsA numsB idx idy i acc =
     foldl (\<lambda>acc i. fadd ar acc (fmul ar (load numsA (u32 (idy * n + i))) (load numsB (u32 (i * n + idx)))))
       acc [i..<n]"
proof (induction ar n numsA numsB idx idy i acc rule: sum_loop.induct)
  case (1 ar n numsA numsB idx idy i acc)
  show ?case
  proof (cases "i < n")
    case True
    then have "[i..<n] = i # [Suc i..<n]"
      by (simp add: upt_conv_Cons)
    with True "1" show ?thesis
      by (subst sum_loop.simps) (simp add: Let_def)
  next
    case False
    then show ?thesis by (subst sum_loop.simps) simp
  qed
qed

lemma length_concat_rows:
  "\<forall>r \<in> set M. length r = n \<Longrightarrow> length (concat M) = length M * n"
  by (induction M) auto

lemma concat_nth_rows:
  "\<forall>r \<in> set M. length r = n \<Longrightarrow> row < length M \<Longrightarrow> col < n \<Longrightarrow>
     concat M ! (row * n + col) = M ! row ! col"
proof (induction M arbitrary: row)
  case Nil
  then show ?case by simp
next
  case (Cons r M)
  show ?case
  proof (cases row)
    case 0
    with Cons.prems show ?thesis by (simp add: nth_append)
  next
    case (Suc row')
    with Cons.prems have "concat M ! (row' * n + col) = M ! row' ! col"
      by (intro Cons.IH) auto
    moreover have len: "length r = n" using Cons.prems by simp
    moreover have "(r @ concat M) ! (length r + (row' * n + col)) = concat M ! (row' * n + col)"
      by (rule nth_append_length_plus)
    ultimately have "(r @ concat M) ! (n + (row' * n + col)) = M ! row' ! col"
      by simp
    moreover have "Suc row' * n + col = n + (row' * n + col)"
      by simp
    ultimately show ?thesis
      unfolding Suc by (simp only: concat.simps nth_Cons_Suc)
  qed
qed

lemma reconstruct_loop_map:
  "reconstruct_loop n resultData i acc =
     acc @ map (\<lambda>i. slice resultData (i * n) (i * n + n)) [i..<n]"
proof (induction n resultData i acc rule: reconstruct_loop.induct)
  case (1 n resultData i acc)
  show ?case
  proof (cases "i < n")
    case True
    then have "[i..<n] = i # [Suc i..<n]"
      by (simp add: upt_conv_Cons)
    with True "1" show ?thesis
      by (subst reconstruct_loop.simps) simp
  next
    case False
    then show ?thesis by (subst reconstruct_loop.simps) simp
  qed
qed

lemma reconstruct_map:
  "reconstruct n resultData = map (\<lambda>i. take n (drop (i * n) resultData)) [0..<n]"
  by (simp add: reconstruct_def reconstruct_loop_map slice_def)

lemma length_reconstruct: "length (reconstruct n resultData) = n"
  by (simp add: reconstruct_map)


lemma row_bound: "row < n \<Longrightarrow> col < n \<Longrightarrow> row * n + col < n * (n::nat)"
proof -
  assume a: "row < n" "col < n"
  then have "row * n + col < Suc row * n" by simp
  also have "\<dots> \<le> n * n" using a by (simp add: Suc_leI mult_le_mono1 del: mult_Suc)
  finally show ?thesis .
qed

lemma row_end_bound: "row < n \<Longrightarrow> row * n + n \<le> n * (n::nat)"
proof -
  assume "row < n"
  then have "Suc row * n \<le> n * n" by (simp add: Suc_leI mult_le_mono1 del: mult_Suc)
  then show ?thesis by (simp add: add.commute)
qed

lemma reconstruct_nth:
  assumes "length resultData = n * n" "row < n" "col < n"
  shows "reconstruct n resultData ! row ! col = resultData ! (row * n + col)"
proof -
  have "reconstruct n resultData ! row = take n (drop (row * n) resultData)"
    using assms(2) by (simp add: reconstruct_map)
  moreover have "row * n \<le> length resultData"
    using row_end_bound [OF assms(2)] assms(1) by linarith
  ultimately show ?thesis using assms(3) by simp
qed

lemma reconstruct_row_length:
  assumes "length resultData = n * n" "row < n"
  shows "length (reconstruct n resultData ! row) = n"
proof -
  have "reconstruct n resultData ! row = take n (drop (row * n) resultData)"
    using assms(2) by (simp add: reconstruct_map)
  moreover have "n \<le> n * n - row * n"
    using row_end_bound [OF assms(2)] by linarith
  ultimately show ?thesis using assms(1) by simp
qed


lemma square_iff: "square n M \<longleftrightarrow> length M = n \<and> (\<forall>r \<in> set M. length r = n)"
  by (simp add: square_def list_all_iff)

lemma square_map: "square n M \<Longrightarrow> square n (map (map f) M)"
  by (simp add: square_iff)

lemma length_concat_square: "square n M \<Longrightarrow> length (concat M) = n * n"
  using length_concat_rows [of M n] by (simp add: square_iff)

lemma concat_nth_square:
  "square n M \<Longrightarrow> row < n \<Longrightarrow> col < n \<Longrightarrow> concat M ! (row * n + col) = M ! row ! col"
  using concat_nth_rows [of M n row col] by (simp add: square_iff)

lemma reconstruct_concat:
  assumes "square n M"
  shows "reconstruct n (concat M) = M"
proof (rule nth_equalityI)
  show "length (reconstruct n (concat M)) = length M"
    using assms by (simp add: length_reconstruct square_iff)
next
  fix row
  assume "row < length (reconstruct n (concat M))"
  then have row: "row < n"
    by (simp add: length_reconstruct)
  have len: "length (concat M) = n * n"
    using assms by (rule length_concat_square)
  show "reconstruct n (concat M) ! row = M ! row"
  proof (rule nth_equalityI)
    show "length (reconstruct n (concat M) ! row) = length (M ! row)"
      using assms row reconstruct_row_length [OF len row] by (simp add: square_iff)
  next
    fix col
    assume "col < length (reconstruct n (concat M) ! row)"
    then have col: "col < n"
      using reconstruct_row_length [OF len row] by simp
    show "reconstruct n (concat M) ! row ! col = M ! row ! col"
      using reconstruct_nth [OF len row col] concat_nth_square [OF assms row col] by simp
  qed
qed

lemma flatten_concat: "flatten ar M = concat (map (map (fround ar)) M)"
  by (simp add: flatten_def map_concat)

lemma reconstruct_flatten:
  "square n M \<Longrightarrow> reconstruct n (flatten ar M) = map (map (fround ar)) M"
  by (simp add: flatten_concat reconstruct_concat square_map)

lemma length_flatten: "square n M \<Longrightarrow> length (flatten ar M) = n * n"
  by (simp add: flatten_def length_concat_square)

lemma flatten_nth:
  "square n M \<Longrightarrow> row < n \<Longrightarrow> col < n \<Longrightarrow> flatten ar M ! (row * n + col) = fround ar (M ! row ! col)"
  using row_bound [of row n col]
  by (simp add: flatten_def length_concat_square concat_nth_square)


lemma length_apply_store: "length (apply_store out w) = length out"
  by (simp add: apply_store_def split: option.splits prod.splits)

lemma run_items_snoc:
  "run_items ar n numsA numsB out (ids @ [gid]) =
     apply_store (run_items ar n numsA numsB out ids) (shader_main ar n numsA numsB gid)"
  by (simp add: run_items_def)

lemma length_run_items: "length (run_items ar n numsA numsB out ids) = length out"
  by (induction ids rule: rev_induct) (simp_all add: run_items_def length_apply_store)

lemma u32_small: "k < 4294967296 \<Longrightarrow> u32 k = k"
  by (simp add: u32_def)

lemma shader_main_Some:
  assumes "idx < n" "idy < n" "n * n \<le> 4294967296"
  shows "shader_main ar n numsA numsB (idx, idy) =
           Some (idy * n + idx, sum_loop ar n numsA numsB idx idy 0 0)"
proof -
  have "idy * n + idx < 4294967296"
    using row_bound [OF assms(2) assms(1)] assms(3) by linarith
  then show ?thesis
    using assms(1,2) by (simp add: shader_main_def u32_small)
qed

lemma shader_main_None:
  "\<not> (idx < n \<and> idy < n) \<Longrightarrow> shader_main ar n numsA numsB (idx, idy) = None"
  by (auto simp: shader_main_def)

lemma index_inj:
  assumes "x < n" "x' < n" "y * n + x = y' * n + (x'::nat)"
  shows "x = x' \<and> y = y'"
proof -
  have "(y * n + x) mod n = x" "(y' * n + x') mod n = x'"
    using assms(1,2) by simp_all
  moreover have "(y * n + x) div n = y" "(y' * n + x') div n = y'"
    using assms(1,2) by simp_all
  ultimately show ?thesis
    using assms(3) by metis
qed

lemma run_items_nth:
  assumes "length out = n * n" "n * n \<le> 4294967296" "x < n" "y < n"
  shows "run_items ar n numsA numsB out ids ! (y * n + x) =
           (if (x, y) \<in> set ids then sum_loop ar n numsA numsB x y 0 0 else out ! (y * n + x))"
proof (induction ids rule: rev_induct)
  case Nil
  show ?case by (simp add: run_items_def)
next
  case (snoc gid ids)
  obtain x' y' where gid: "gid = (x', y')"
    by (cases gid)
  let ?prev = "run_items ar n numsA numsB out ids"
  have k: "y * n + x < length ?prev"
    using row_bound [OF assms(4) assms(3)] assms(1) by (simp add: length_run_items)
  show ?case
  proof (cases "x' < n \<and> y' < n")
    case False
    then have "shader_main ar n numsA numsB gid = None"
      unfolding gid by (rule shader_main_None)
    moreover have "(x, y) \<noteq> gid"
      using False assms(3,4) gid by auto
    ultimately show ?thesis
      using snoc.IH by (simp add: run_items_snoc apply_store_def)
  next
    case True
    then have w: "shader_main ar n numsA numsB gid =
        Some (y' * n + x', sum_loop ar n numsA numsB x' y' 0 0)"
      unfolding gid using assms(2) by (simp add: shader_main_Some)
    have k': "y' * n + x' < length ?prev"
      using True row_bound [of y' n x'] assms(1) by (simp add: length_run_items)
    show ?thesis
    proof (cases "(x, y) = gid")
      case True
      then have "x' = x" "y' = y"
        using gid by simp_all
      with w k show ?thesis
        using True by (simp add: run_items_snoc apply_store_def)
    next
      case False
      then have "y' * n + x' \<noteq> y * n + x"
        using index_inj [of x' n x y' y] True assms(3) gid by auto
      with w k' False show ?thesis
        using snoc.IH by (simp add: run_items_snoc apply_store_def)
    qed
  qed
qed

lemma global_invocation_ids_iff:
  "(x, y) \<in> set (global_invocation_ids (gx, gy)) \<longleftrightarrow> x < 8 * gx \<and> y < 8 * gy"
  by (auto simp: global_invocation_ids_def workgroup_size_def image_iff)


lemma length_createBuffer: "length (createBuffer (BUFFER_SIZE n) :: 'a::zero list) = n * n"
  by (simp add: createBuffer_def BUFFER_SIZE_def)

lemma writeBuffer_full: "length data = length buffer \<Longrightarrow> writeBuffer buffer data = data"
  by (simp add: writeBuffer_def)

lemma copyBufferToBuffer_full:
  "length source = n * n \<Longrightarrow> length destination = n * n \<Longrightarrow>
     copyBufferToBuffer source destination (BUFFER_SIZE n) = source"
  by (simp add: copyBufferToBuffer_def BUFFER_SIZE_def)

lemma sum_loop_dot_product:
  assumes "square n A" "square n B" "n * n \<le> 4294967296" "idx < n" "idy < n"
  shows "sum_loop ar n (flatten ar A) (flatten ar B) idx idy 0 0 = dot_product ar n A B idy idx"
proof -
  have "load (flatten ar A) (u32 (idy * n + i)) = fround ar (A ! idy ! i) \<and>
        load (flatten ar B) (u32 (i * n + idx)) = fround ar (B ! i ! idx)" if "i < n" for i
  proof -
    have ka: "idy * n + i < n * n" and kb: "i * n + idx < n * n"
      using that assms(4,5) by (simp_all add: row_bound)
    then have "u32 (idy * n + i) = idy * n + i" "u32 (i * n + idx) = i * n + idx"
      using assms(3) by (simp_all add: u32_small)
    then show ?thesis
      using ka kb assms(1,2,4,5) that
      by (simp add: load_def length_flatten flatten_nth)
  qed
  then have "foldl (\<lambda>acc i. fadd ar acc (fmul ar (load (flatten ar A) (u32 (idy * n + i)))
                 (load (flatten ar B) (u32 (i * n + idx))))) 0 [0..<n] =
             foldl (\<lambda>acc i. fadd ar acc (fmul ar (fround ar (A ! idy ! i))
                 (fround ar (B ! i ! idx)))) 0 [0..<n]"
    by (intro foldl_cong) simp_all
  then show ?thesis
    by (simp add: sum_loop_foldl dot_product_def)
qed

lemma try_block_ok:
  "navigator_gpu env \<Longrightarrow> adapter_found env \<Longrightarrow> thrown env = None \<Longrightarrow>
     try_block ar n env A B = (NotMapped, Inr (reconstruct n (device_work ar n A B)))"
  by (simp add: try_block_def raises_def Let_def)

lemma multiply_ok:
  assumes "navigator_gpu env" "adapter_found env" "thrown env = None"
  shows "multiply ar n env s =
     (s\<lparr>error := None, loading := False,
        resultMatrix := Some (reconstruct n (device_work ar n
           (read_matrix (heap s) (matrixA s)) (read_matrix (heap s) (matrixB s))))\<rparr>, NotMapped)"
  using assms
  by (simp add: multiply_def try_block_ok setError_def setLoading_def setResultMatrix_def)

lemma square_reconstruct:
  assumes "length resultData = n * n"
  shows "square n (reconstruct n resultData)"
proof -
  have "length r = n" if "r \<in> set (reconstruct n resultData)" for r
  proof -
    from that obtain row where "row < n" "r = reconstruct n resultData ! row"
      by (auto simp: in_set_conv_nth length_reconstruct)
    then show ?thesis
      using reconstruct_row_length [OF assms] by simp
  qed
  then show ?thesis
    by (simp add: square_iff length_reconstruct)
qed

lemma small_square: "n \<le> 8 \<Longrightarrow> n * n \<le> (4294967296::nat)"
proof -
  assume "n \<le> 8"
  then have "n * n \<le> 8 * 8" using mult_le_mono [of n 8 n 8] by simp
  then show ?thesis by simp
qed

lemma dot_product_exact:
  "dot_product (exact_arith :: 'a::semiring_0 f32_arith) n A B row col =
     (\<Sum>i<n. A ! row ! i * B ! i ! col)"
proof -
  have "foldl (\<lambda>acc i. acc + f i) a [0..<n] = a + (\<Sum>i<n. f i)" for f :: "nat \<Rightarrow> 'a" and a
    by (induction n) (simp_all add: add.assoc)
  from this [of "\<lambda>i. A ! row ! i * B ! i ! col" 0] show ?thesis
    by (simp add: dot_product_def exact_arith_def)
qed

lemma initial_matrixA:
  "read_matrix (heap (initial_state :: int page_state)) (matrixA (initial_state :: int page_state)) =
     [[1, 0, 0, 0], [0, 1, 0, 0], [0, 0, 1, 0], [0, 0, 0, 1]]"
  by code_simp

lemma initial_matrixB:
  "read_matrix (heap (initial_state :: int page_state)) (matrixB (initial_state :: int page_state)) =
     [[1, 2, 3, 4], [5, 6, 7, 8], [9, 10, 11, 12], [13, 14, 15, 16]]"
  by code_simp

lemma ceil_div8_one: "ceil_div8 n = 1 \<longleftrightarrow> 1 \<le> n \<and> n \<le> 8"
  unfolding ceil_div8_def by presburger

lemma map_id_iff: "map f xs = xs \<longleftrightarrow> (\<forall>x \<in> set xs. f x = x)"
  by (induction xs) auto

lemma map_map_id_iff:
  "map (map f) m = m \<longleftrightarrow> (\<forall>r \<in> set m. \<forall>x \<in> set r. f x = x)"
  by (simp add: map_id_iff)

lemma roundtrip_iff:
  "square n m \<Longrightarrow>
     reconstruct n (flatten ar m) = m \<longleftrightarrow> (\<forall>r \<in> set m. \<forall>x \<in> set r. fround ar x = x)"
  using map_map_id_iff [of "fround ar" m] by (simp add: reconstruct_flatten)

lemma example_numbers_fixed: "\<forall>r \<in> set example_numbers. \<forall>x \<in> set r. fround ieee32 x = x"
  by code_simp

lemma square_example_numbers: "square MATRIX_SIZE example_numbers"
  by code_simp

lemma fround32_tenth: "fround32 (Fin tenth) = Fin (13421773 / 134217728)"
  by code_simp

lemma run_items_schedule:
  assumes "length out = n * n" "n * n \<le> 4294967296" "set ids = set ids'"
  shows "run_items ar n numsA numsB out ids = run_items ar n numsA numsB out ids'"
proof (rule nth_equalityI)
  show "length (run_items ar n numsA numsB out ids) = length (run_items ar n numsA numsB out ids')"
    by (simp add: length_run_items)
next
  fix k
  assume "k < length (run_items ar n numsA numsB out ids)"
  then have k: "k < n * n"
    using assms(1) by (simp add: length_run_items)
  then have pos: "0 < n"
    by (cases n) simp_all
  have x: "k mod n < n"
    using pos by simp
  have y: "k div n < n"
    using k pos by (simp add: less_mult_imp_div_less)
  have eq: "k div n * n + k mod n = k"
    by simp
  show "run_items ar n numsA numsB out ids ! k = run_items ar n numsA numsB out ids' ! k"
    using run_items_nth [OF assms(1,2) x y, of ar numsA numsB ids]
      run_items_nth [OF assms(1,2) x y, of ar numsA numsB ids'] assms(3)
    unfolding eq by simp
qed

lemma length_map_index: "length (map_index f xs) = length xs"
  by (simp add: map_index_def)

lemma map_index_nth: "i < length xs \<Longrightarrow> map_index f xs ! i = f (xs ! i) i"
  by (simp add: map_index_def nth_enumerate_eq)

lemma identity_matrix_nth:
  "row < n \<Longrightarrow> col < n \<Longrightarrow> identity_matrix n ! row ! col = (if row = col then 1 else 0)"
  by (simp add: identity_matrix_def createDefaultMatrix_def map_index_nth)

lemma square_identity_matrix: "square n (identity_matrix n)"
proof -
  have "length r = n" if "r \<in> set (identity_matrix n)" for r :: "'a list"
  proof -
    from that obtain i where "i < n" "r = identity_matrix n ! i"
      by (auto simp: in_set_conv_nth identity_matrix_def createDefaultMatrix_def
          length_map_index)
    then show ?thesis
      by (simp add: identity_matrix_def createDefaultMatrix_def map_index_nth length_map_index)
  qed
  then show ?thesis
    by (simp add: square_iff identity_matrix_def createDefaultMatrix_def length_map_index)
qed

lemma initial_matrixA_identity:
  "read_matrix (heap (initial_state :: int page_state)) (matrixA (initial_state :: int page_state)) =
     identity_matrix MATRIX_SIZE"
  by code_simp

lemma multiply_outcome:
  "multiply ar n env s =
     (case snd (try_block ar n env (read_matrix (heap s) (matrixA s))
                  (read_matrix (heap s) (matrixB s))) of
        Inr R \<Rightarrow> s\<lparr>error := None, loading := False, resultMatrix := Some R\<rparr>
      | Inl m \<Rightarrow> s\<lparr>error := Some m, loading := False\<rparr>,
      fst (try_block ar n env (read_matrix (heap s) (matrixA s))
             (read_matrix (heap s) (matrixB s))))"
  by (simp add: multiply_def setError_def setLoading_def setResultMatrix_def split_def
      split: sum.splits)

lemma try_block_result:
  "snd (try_block ar n env A B) = Inr (reconstruct n (device_work ar n A B)) \<or>
   (\<exists>m. snd (try_block ar n env A B) = Inl m)"
proof (cases "thrown env")
  case None
  then show ?thesis
    by (simp add: try_block_def raises_def Let_def)
next
  case (Some cm)
  obtain c m where cm: "cm = (c, m)"
    by (cases cm)
  show ?thesis
    unfolding try_block_def raises_def Let_def Some cm
    by (cases c) auto
qed

lemma try_block_mapped:
  "fst (try_block ar n env A B) = Mapped \<longleftrightarrow>
     navigator_gpu env \<and> adapter_found env \<and>
     (\<exists>m. thrown env = Some (GetMappedRange, m) \<or> thrown env = Some (SliceCopy, m))"
proof (cases "thrown env")
  case None
  then show ?thesis
    by (simp add: try_block_def raises_def Let_def)
next
  case (Some cm)
  obtain c m where cm: "cm = (c, m)"
    by (cases cm)
  show ?thesis
    unfolding try_block_def raises_def Let_def Some cm
    by (cases c) auto
qed

lemma map_fresh_update:
  assumes "\<forall>r \<in> set refs. r < (fresh::nat)" "row < length refs"
  shows "map (f(fresh := x)) (refs[row := fresh]) = (map f refs)[row := x]"
proof (rule nth_equalityI)
  show "length (map (f(fresh := x)) (refs[row := fresh])) = length ((map f refs)[row := x])"
    by simp
next
  fix i
  assume "i < length (map (f(fresh := x)) (refs[row := fresh]))"
  then have i: "i < length refs"
    by simp
  then have "refs ! i < fresh"
    using assms(1) by simp
  then have "refs ! i \<noteq> fresh"
    by simp
  then show "map (f(fresh := x)) (refs[row := fresh]) ! i = (map f refs)[row := x] ! i"
    using i assms(2) by (cases "i = row") simp_all
qed

lemma map_fresh_same:
  assumes "\<forall>r \<in> set refs. r < (fresh::nat)"
  shows "map (f(fresh := x)) refs = map f refs"
proof (rule map_cong [OF refl])
  fix r
  assume "r \<in> set refs"
  then have "r \<noteq> fresh"
    using assms by auto
  then show "(f(fresh := x)) r = f r"
    by simp
qed

lemma initial_heap_wf:
  "matrixA (initial_state :: int page_state) < mat_next (heap (initial_state :: int page_state))"
  "\<forall>r \<in> set (mat_store (heap (initial_state :: int page_state)) (matrixA (initial_state :: int page_state))).
     r < row_next (heap (initial_state :: int page_state))"
  "1 < length (mat_store (heap (initial_state :: int page_state)) (matrixA (initial_state :: int page_state)))"
  "2 < length (row_store (heap (initial_state :: int page_state))
     (mat_store (heap (initial_state :: int page_state)) (matrixA (initial_state :: int page_state)) ! 1))"
  by code_simp+

lemma run_items_outside:
  assumes "n * n \<le> k"
  shows "run_items ar n numsA numsB out ids ! k = out ! k"
proof (induction ids rule: rev_induct)
  case Nil
  show ?case by (simp add: run_items_def)
next
  case (snoc gid ids)
  obtain idx idy where gid: "gid = (idx, idy)"
    by (cases gid)
  show ?case
  proof (cases "shader_main ar n numsA numsB gid")
    case None
    then show ?thesis
      using snoc.IH by (simp add: run_items_snoc apply_store_def)
  next
    case (Some w)
    obtain k' v where w: "w = (k', v)"
      by (cases w)
    have "k' < n * n"
      using shader_main_in_range [of ar n numsA numsB idx idy k' v] Some
      unfolding gid w by simp
    then have "k' \<noteq> k"
      using assms by simp
    then show ?thesis
      using snoc.IH Some by (simp add: run_items_snoc apply_store_def w)
  qed
qed

lemma swapped_matrices:
  "read_matrix (heap swapped_state) (matrixA swapped_state) =
     [[1, 2, 3, 4], [5, 6, 7, 8], [9, 10, 11, 12], [13, 14, 15, 16]]"
  "read_matrix (heap swapped_state) (matrixB swapped_state) = identity_matrix MATRIX_SIZE"
  by code_simp+

lemma createShaderModule_shaderCode: "\<not> createShaderModule shaderCode_bindings"
  by (simp add: createShaderModule_def shaderCode_bindings_def storage_access_allowed_def)

lemma device_work_zero: "device_work ar n A B = replicate (n * n) 0"
proof -
  have "copyBufferToBuffer (createBuffer (BUFFER_SIZE n) :: 'a list)
          (createBuffer (BUFFER_SIZE n)) (BUFFER_SIZE n) = createBuffer (BUFFER_SIZE n)"
    by (rule copyBufferToBuffer_full) (rule length_createBuffer)+
  then show ?thesis
    by (simp add: device_work_def Let_def createShaderModule_shaderCode createBuffer_def
        BUFFER_SIZE_def)
qed

lemma reconstruct_zero: "reconstruct n (replicate (n * n) 0) = createDefaultMatrix n"
proof -
  have "take n (drop (i * n) (replicate (n * n) (0::'a))) = replicate n 0" if "i < n" for i
  proof -
    have "n \<le> n * n - i * n"
      using row_end_bound [OF that] by linarith
    then show ?thesis
      by (simp add: min_def)
  qed
  then have "map (\<lambda>i. take n (drop (i * n) (replicate (n * n) (0::'a)))) [0..<n] =
      map (\<lambda>i. replicate n 0) [0..<n]"
    by (intro map_cong) simp_all
  then show ?thesis
    by (simp add: reconstruct_map createDefaultMatrix_def map_replicate_const)
qed

lemma multiply_zero:
  assumes "navigator_gpu env" "adapter_found env" "thrown env = None"
  shows "multiply ar n env s =
     (s\<lparr>error := None, loading := False, resultMatrix := Some (createDefaultMatrix n)\<rparr>,
      NotMapped)"
  using assms by (simp add: multiply_ok device_work_zero reconstruct_zero)

lemma dispatch_cells:
  assumes "square n A" "square n B" "n \<le> 8" "row < n" "col < n"
  shows "dispatchWorkgroups ar n (flatten ar A) (flatten ar B) (createBuffer (BUFFER_SIZE n))
           (workgroup_counts n) ! (row * n + col) = dot_product ar n A B row col"
  using assms small_square [OF assms(3)]
  by (simp add: dispatchWorkgroups_def workgroup_counts_def run_items_nth length_createBuffer
      global_invocation_ids_iff sum_loop_dot_product)

lemma shader_main_fold:
  assumes "idx < n" "idy < n"
  shows "shader_main ar n numsA numsB (idx, idy) =
     Some (u32 (idy * n + idx),
       foldl (\<lambda>acc i. fadd ar acc
                (fmul ar (load numsA (u32 (idy * n + i))) (load numsB (u32 (i * n + idx)))))
         0 [0..<n])"
  using assms by (simp add: shader_main_def sum_loop_foldl)

section \<open>The product (C1)\<close>

text \<open>
  C1 does not hold of the page, by a defect of the code. The shader declares its output
  binding \<^verbatim>\<open>var<storage, write> matrixOut\<close> (line 17), and WGSL does not admit the access
  mode \<^verbatim>\<open>write\<close> in the storage address space (\<open>createShaderModule_shaderCode\<close>). The
  shader module is invalid, no call throws, and nothing of the compute pass executes.
  So every run of \<^verbatim>\<open>multiply\<close> in which no call fails sets no error and stores the
  \<open>n \<times> n\<close> matrix of zeros, the content of the result buffer as it was created, whatever
  A and B are: not their product. From the initial state of the page (A the identity
  matrix, B the matrix of 1 to 16) the cell \<open>(1, 2)\<close> of the product is 7; the page
  stores 0 there. The body of the kernel is not at fault: a dispatch that runs stores the
  dot product in every cell for \<open>n \<le> 8\<close> (\<open>dispatch_cells\<close>), in cell \<open>(1, 2)\<close> the 7.
\<close>

theorem multiply_stores_zeros:
  assumes "navigator_gpu env" "adapter_found env" "thrown env = None"
  shows "fst (multiply ar n env s) =
           s\<lparr>error := None, loading := False, resultMatrix := Some (createDefaultMatrix n)\<rparr>"
  using assms by (simp add: multiply_zero)

theorem multiply_stores_zeros_witness:
  "read_matrix (heap (initial_state :: int page_state)) (matrixA (initial_state :: int page_state)) =
     [[1, 0, 0, 0], [0, 1, 0, 0], [0, 0, 1, 0], [0, 0, 0, 1]] \<and>
   read_matrix (heap (initial_state :: int page_state)) (matrixB (initial_state :: int page_state)) =
     [[1, 2, 3, 4], [5, 6, 7, 8], [9, 10, 11, 12], [13, 14, 15, 16]] \<and>
   resultMatrix (fst (multiplyMatrices exact_arith ok_env (initial_state :: int page_state))) =
     Some [[0, 0, 0, 0], [0, 0, 0, 0], [0, 0, 0, 0], [0, 0, 0, 0]] \<and>
   error (fst (multiplyMatrices exact_arith ok_env (initial_state :: int page_state))) = None \<and>
   dot_product exact_arith MATRIX_SIZE
     [[1, 0, 0, 0], [0, 1, 0, 0], [0, 0, 1, 0], [0, 0, 0, 1]]
     [[1, 2, 3, 4], [5, 6, 7, 8], [9, 10, 11, 12], [13, 14, 15, 16 :: int]] 1 2 = 7 \<and>
   dispatchWorkgroups exact_arith MATRIX_SIZE
     (flatten exact_arith [[1, 0, 0, 0], [0, 1, 0, 0], [0, 0, 1, 0], [0, 0, 0, 1]])
     (flatten exact_arith [[1, 2, 3, 4], [5, 6, 7, 8], [9, 10, 11, 12], [13, 14, 15, 16 :: int]])
     (createBuffer (BUFFER_SIZE MATRIX_SIZE)) (workgroup_counts MATRIX_SIZE) ! (1 * MATRIX_SIZE + 2) = 7"
proof -
  let ?s = "initial_state :: int page_state"
  let ?A = "[[1, 0, 0, 0], [0, 1, 0, 0], [0, 0, 1, 0], [0, 0, 0, 1 :: int]]"
  let ?B = "[[1, 2, 3, 4], [5, 6, 7, 8], [9, 10, 11, 12], [13, 14, 15, 16 :: int]]"
  have env: "navigator_gpu ok_env" "adapter_found ok_env" "thrown ok_env = None"
    by (simp_all add: ok_env_def)
  have run: "fst (multiplyMatrices exact_arith ok_env ?s) =
      ?s\<lparr>error := None, loading := False, resultMatrix := Some (createDefaultMatrix MATRIX_SIZE)\<rparr>"
    unfolding multiplyMatrices_def by (rule multiply_stores_zeros [OF env])
  have zeros: "createDefaultMatrix MATRIX_SIZE =
      [[0, 0, 0, 0], [0, 0, 0, 0], [0, 0, 0, 0], [0, 0, 0, 0 :: int]]"
    by (simp add: createDefaultMatrix_def MATRIX_SIZE_def numeral_eq_Suc)
  have dot: "dot_product exact_arith MATRIX_SIZE ?A ?B 1 2 = 7"
    by (simp add: dot_product_exact MATRIX_SIZE_def lessThan_nat_numeral lessThan_Suc)
  have sq: "square MATRIX_SIZE ?A" "square MATRIX_SIZE ?B"
    by (simp_all add: square_def MATRIX_SIZE_def)
  have small: "MATRIX_SIZE \<le> 8" and rc: "1 < MATRIX_SIZE" "2 < MATRIX_SIZE"
    by (simp_all add: MATRIX_SIZE_def)
  have "dispatchWorkgroups exact_arith MATRIX_SIZE (flatten exact_arith ?A) (flatten exact_arith ?B)
      (createBuffer (BUFFER_SIZE MATRIX_SIZE)) (workgroup_counts MATRIX_SIZE) ! (1 * MATRIX_SIZE + 2) =
      dot_product exact_arith MATRIX_SIZE ?A ?B 1 2"
    by (rule dispatch_cells [OF sq small rc])
  with run zeros dot show ?thesis
    by (simp add: initial_matrixA initial_matrixB)
qed

section \<open>The codec round trip (C2)\<close>

text \<open>
  C2, as the code has it. For every \<open>n \<times> n\<close> matrix \<open>m\<close>, reconstructing the flattened matrix
  gives \<open>m\<close> with the same shape and order and every element converted to \<^verbatim>\<open>f32\<close>; the
  result is \<open>m\<close> itself exactly when every element of \<open>m\<close> is an \<^verbatim>\<open>f32\<close> value already.
  The matrices of the page hold JavaScript numbers, and \<^verbatim>\<open>flatten\<close> stores them in a
  \<^verbatim>\<open>Float32Array\<close>: the number \<^verbatim>\<open>0.1\<close> comes back as \<open>13421773 / 2 ^ 27\<close>.
\<close>

theorem reconstruct_flatten_roundtrip:
  assumes "square n m"
  shows "reconstruct n (flatten ar m) = map (map (fround ar)) m \<and>
         (reconstruct n (flatten ar m) = m \<longleftrightarrow> (\<forall>r \<in> set m. \<forall>x \<in> set r. fround ar x = x))"
  using reconstruct_flatten [OF assms, of ar] roundtrip_iff [OF assms, of ar] by simp

theorem reconstruct_flatten_roundtrip_witness:
  "reconstruct MATRIX_SIZE (flatten ieee32 example_numbers) = example_numbers"
proof -
  from reconstruct_flatten_roundtrip [OF square_example_numbers, of ieee32]
  have "reconstruct MATRIX_SIZE (flatten ieee32 example_numbers) = example_numbers \<longleftrightarrow>
      (\<forall>r \<in> set example_numbers. \<forall>x \<in> set r. fround ieee32 x = x)"
    by (rule conjunct2)
  then show ?thesis
    using example_numbers_fixed by (rule iffD2)
qed

theorem reconstruct_flatten_counterexample:
  "reconstruct MATRIX_SIZE (flatten ieee32 tenth_matrix) \<noteq> tenth_matrix"
proof -
  have sq: "square MATRIX_SIZE tenth_matrix"
    by (simp add: square_def MATRIX_SIZE_def tenth_matrix_def)
  have "(13421773 / 134217728 :: rat) \<noteq> tenth"
    by (simp add: tenth_def)
  then have "fround ieee32 (Fin tenth) \<noteq> Fin tenth"
    by (simp add: ieee32_def fround32_tenth)
  moreover have "Fin tenth \<in> set (tenth_matrix ! 0)" "tenth_matrix ! 0 \<in> set tenth_matrix"
    by (simp_all add: tenth_matrix_def)
  ultimately have "\<not> (\<forall>r \<in> set tenth_matrix. \<forall>x \<in> set r. fround ieee32 x = x)"
    by blast
  then show ?thesis
    using roundtrip_iff [OF sq, of ieee32] by simp
qed

section \<open>The dispatch extent (C3)\<close>

text \<open>
  C3, as the code has it. The single dispatch uses one group along each of the two
  dimensions, whatever the dimension \<open>n\<close> is; this is \<open>ceil (n / 8)\<close> exactly for
  \<open>1 \<le> n \<le> 8\<close>, which the dimension of the page (4) satisfies. The count is a literal of
  the source, not a value derived from \<open>n\<close>: at \<open>n = 9\<close> it is not \<open>ceil (n / 8)\<close>.
\<close>

theorem workgroup_counts_fixed:
  "workgroup_counts n = (1, 1) \<and>
   (workgroup_counts n = (ceil_div8 n, ceil_div8 n) \<longleftrightarrow> 1 \<le> n \<and> n \<le> 8)"
  using ceil_div8_one [of n] by (simp add: workgroup_counts_def eq_commute)

theorem workgroup_counts_fixed_witness:
  "workgroup_counts MATRIX_SIZE = (ceil_div8 MATRIX_SIZE, ceil_div8 MATRIX_SIZE)"
proof -
  have "1 \<le> MATRIX_SIZE \<and> MATRIX_SIZE \<le> 8"
    by (simp add: MATRIX_SIZE_def)
  with workgroup_counts_fixed [of MATRIX_SIZE] show ?thesis
    by blast
qed

theorem workgroup_counts_counterexample:
  "workgroup_counts 9 \<noteq> (ceil_div8 9, ceil_div8 9)"
  by (simp add: workgroup_counts_def ceil_div8_def)

section \<open>Bounds check of the shader (C4)\<close>

text \<open>
  C4. A work item whose coordinates fall outside \<open>[0, n) \<times> [0, n)\<close> returns before any store:
  it performs no write and leaves every output buffer as it was. Whatever store a work
  item does perform comes from an item inside the range and goes to an index below
  \<open>n * n\<close>. So a dispatch, whatever its group counts, leaves every element at an index
  of \<open>n * n\<close> or more as it was. This holds for every \<open>n\<close>, a multiple of the tile size 8
  or not.
\<close>

theorem shader_main_bounds:
  "(idx \<ge> n \<or> idy \<ge> n \<longrightarrow>
      shader_main ar n numsA numsB (idx, idy) = None \<and>
      apply_store out (shader_main ar n numsA numsB (idx, idy)) = out) \<and>
   (\<forall>k v. shader_main ar n numsA numsB (idx, idy) = Some (k, v) \<longrightarrow>
      idx < n \<and> idy < n \<and> k < n * n) \<and>
   (\<forall>k. n * n \<le> k \<longrightarrow> dispatchWorkgroups ar n numsA numsB out counts ! k = out ! k)"
proof (intro conjI impI allI)
  assume "idx \<ge> n \<or> idy \<ge> n"
  then show none: "shader_main ar n numsA numsB (idx, idy) = None"
    by (auto simp: shader_main_def)
  then show "apply_store out (shader_main ar n numsA numsB (idx, idy)) = out"
    by (simp add: apply_store_def)
next
  fix k v
  assume "shader_main ar n numsA numsB (idx, idy) = Some (k, v)"
  then show "idx < n" "idy < n" "k < n * n"
    using shader_main_in_range by blast+
next
  fix k
  assume "n * n \<le> k"
  then show "dispatchWorkgroups ar n numsA numsB out counts ! k = out ! k"
    unfolding dispatchWorkgroups_def by (rule run_items_outside)
qed

theorem shader_main_bounds_witness:
  "shader_main exact_arith 5 (replicate 25 (1::int)) (replicate 25 1) (6, 2) = None \<and>
   apply_store (replicate 30 0)
     (shader_main exact_arith 5 (replicate 25 (1::int)) (replicate 25 1) (6, 2)) = replicate 30 0 \<and>
   (\<exists>k v. shader_main exact_arith 5 (replicate 25 (1::int)) (replicate 25 1) (3, 4) = Some (k, v) \<and>
      k < 5 * 5) \<and>
   dispatchWorkgroups exact_arith 5 (replicate 25 (1::int)) (replicate 25 1) (replicate 30 0)
     (workgroup_counts 5) ! 27 = 0"
proof -
  let ?A = "replicate 25 (1::int)"
  let ?out = "replicate 30 (0::int)"
  note inst = shader_main_bounds [where n = 5 and ar = exact_arith and numsA = ?A and numsB = ?A
      and out = ?out and counts = "workgroup_counts 5"]
  have outside: "(5::nat) \<le> 6 \<or> (5::nat) \<le> 2"
    by simp
  have out: "shader_main exact_arith 5 ?A ?A (6, 2) = None \<and>
      apply_store ?out (shader_main exact_arith 5 ?A ?A (6, 2)) = ?out"
    by (rule inst [where idx = 6 and idy = 2, THEN conjunct1, THEN mp, OF outside])
  have some: "shader_main exact_arith 5 ?A ?A (3, 4) =
      Some (4 * 5 + 3, sum_loop exact_arith 5 ?A ?A 3 4 0 0)"
    by (rule shader_main_Some) simp_all
  have "(4::nat) * 5 + 3 < 5 * 5"
    using inst [where idx = 3 and idy = 4, THEN conjunct2, THEN conjunct1, THEN spec, THEN spec,
        THEN mp, OF some]
    by (rule conjunct2 [THEN conjunct2])
  with some have inside:
    "\<exists>k v. shader_main exact_arith 5 ?A ?A (3, 4) = Some (k, v) \<and> k < 5 * 5"
    by blast
  have beyond: "(5::nat) * 5 \<le> 27"
    by simp
  have "dispatchWorkgroups exact_arith 5 ?A ?A ?out (workgroup_counts 5) ! 27 = ?out ! 27"
    by (rule inst [where idx = 0 and idy = 0, THEN conjunct2, THEN conjunct2, THEN spec,
          THEN mp, OF beyond])
  then have "dispatchWorkgroups exact_arith 5 ?A ?A ?out (workgroup_counts 5) ! 27 = 0"
    by simp
  with out inside show ?thesis
    by blast
qed

section \<open>Failure of the device acquisition (C5)\<close>

text \<open>
  C5. When \<^verbatim>\<open>navigator.gpu\<close> is missing, when \<^verbatim>\<open>requestAdapter\<close> rejects or resolves to no
  adapter, or when \<^verbatim>\<open>requestDevice\<close> rejects, \<^verbatim>\<open>multiply\<close> ends in the page state it
  started from with only the error set to the reason of the failure (and \<^verbatim>\<open>loading\<close>
  false): the result matrix, the input matrices and the heap are as before the call. In
  every run the page state either receives the complete reconstructed result, or is the
  old state with an error: a partial matrix is never stored.
\<close>

theorem multiply_acquisition_failure:
  "(\<not> navigator_gpu env \<longrightarrow>
      multiply ar n env s =
        (s\<lparr>error := Some ''WebGPU is not supported on this browser.'', loading := False\<rparr>,
         NotMapped)) \<and>
   (navigator_gpu env \<and> thrown env = Some (RequestAdapter, m) \<longrightarrow>
      multiply ar n env s = (s\<lparr>error := Some m, loading := False\<rparr>, NotMapped)) \<and>
   (navigator_gpu env \<and> raises env RequestAdapter = None \<and> \<not> adapter_found env \<longrightarrow>
      multiply ar n env s =
        (s\<lparr>error := Some ''Failed to get GPU adapter.'', loading := False\<rparr>, NotMapped)) \<and>
   (navigator_gpu env \<and> adapter_found env \<and> thrown env = Some (RequestDevice, m) \<longrightarrow>
      multiply ar n env s = (s\<lparr>error := Some m, loading := False\<rparr>, NotMapped)) \<and>
   (fst (multiply ar n env s) =
      s\<lparr>error := None, loading := False,
        resultMatrix := Some (reconstruct n (device_work ar n
          (read_matrix (heap s) (matrixA s)) (read_matrix (heap s) (matrixB s))))\<rparr> \<or>
    (\<exists>m'. fst (multiply ar n env s) = s\<lparr>error := Some m', loading := False\<rparr>))"
proof (intro conjI impI)
  assume "\<not> navigator_gpu env"
  then show "multiply ar n env s =
      (s\<lparr>error := Some ''WebGPU is not supported on this browser.'', loading := False\<rparr>, NotMapped)"
    by (simp add: multiply_outcome try_block_def)
next
  assume "navigator_gpu env \<and> thrown env = Some (RequestAdapter, m)"
  then show "multiply ar n env s = (s\<lparr>error := Some m, loading := False\<rparr>, NotMapped)"
    by (simp add: multiply_outcome try_block_def raises_def)
next
  assume "navigator_gpu env \<and> raises env RequestAdapter = None \<and> \<not> adapter_found env"
  then show "multiply ar n env s =
      (s\<lparr>error := Some ''Failed to get GPU adapter.'', loading := False\<rparr>, NotMapped)"
    by (simp add: multiply_outcome try_block_def)
next
  assume "navigator_gpu env \<and> adapter_found env \<and> thrown env = Some (RequestDevice, m)"
  then show "multiply ar n env s = (s\<lparr>error := Some m, loading := False\<rparr>, NotMapped)"
    by (simp add: multiply_outcome try_block_def raises_def)
next
  show "fst (multiply ar n env s) =
      s\<lparr>error := None, loading := False,
        resultMatrix := Some (reconstruct n (device_work ar n
          (read_matrix (heap s) (matrixA s)) (read_matrix (heap s) (matrixB s))))\<rparr> \<or>
    (\<exists>m'. fst (multiply ar n env s) = s\<lparr>error := Some m', loading := False\<rparr>)"
    using try_block_result [of ar n env "read_matrix (heap s) (matrixA s)"
        "read_matrix (heap s) (matrixB s)"]
    by (auto simp: multiply_outcome)
qed

theorem multiply_acquisition_failure_witness:
  "multiplyMatrices exact_arith no_gpu_env (initial_state :: int page_state) =
     (initial_state\<lparr>error := Some ''WebGPU is not supported on this browser.'',
        loading := False\<rparr>, NotMapped) \<and>
   multiplyMatrices exact_arith (failing_env RequestAdapter ''adapter request failed'')
       (initial_state :: int page_state) =
     (initial_state\<lparr>error := Some ''adapter request failed'', loading := False\<rparr>, NotMapped) \<and>
   multiplyMatrices exact_arith no_adapter_env (initial_state :: int page_state) =
     (initial_state\<lparr>error := Some ''Failed to get GPU adapter.'', loading := False\<rparr>,
      NotMapped) \<and>
   multiplyMatrices exact_arith (failing_env RequestDevice ''no device'')
       (initial_state :: int page_state) =
     (initial_state\<lparr>error := Some ''no device'', loading := False\<rparr>, NotMapped)"
proof -
  note inst = multiply_acquisition_failure [where ar = exact_arith and n = MATRIX_SIZE
      and s = "initial_state :: int page_state"]
  have h1: "\<not> navigator_gpu no_gpu_env"
    by (simp add: no_gpu_env_def)
  have h2: "navigator_gpu (failing_env RequestAdapter ''adapter request failed'') \<and>
      thrown (failing_env RequestAdapter ''adapter request failed'') =
        Some (RequestAdapter, ''adapter request failed'')"
    by (simp add: failing_env_def)
  have h3: "navigator_gpu no_adapter_env \<and> raises no_adapter_env RequestAdapter = None \<and>
      \<not> adapter_found no_adapter_env"
    by (simp add: no_adapter_env_def raises_def)
  have h4: "navigator_gpu (failing_env RequestDevice ''no device'') \<and>
      adapter_found (failing_env RequestDevice ''no device'') \<and>
      thrown (failing_env RequestDevice ''no device'') = Some (RequestDevice, ''no device'')"
    by (simp add: failing_env_def)
  show ?thesis
    unfolding multiplyMatrices_def
    by (intro conjI
        inst [where env = no_gpu_env, THEN conjunct1, THEN mp, OF h1]
        inst [where env = "failing_env RequestAdapter ''adapter request failed''"
          and m = "''adapter request failed''", THEN conjunct2, THEN conjunct1, THEN mp, OF h2]
        inst [where env = no_adapter_env, THEN conjunct2, THEN conjunct2, THEN conjunct1,
          THEN mp, OF h3]
        inst [where env = "failing_env RequestDevice ''no device''" and m = "''no device''",
          THEN conjunct2, THEN conjunct2, THEN conjunct2, THEN conjunct1, THEN mp, OF h4])
qed

section \<open>The map state of the staging buffer (C6)\<close>

text \<open>
  C6, as the code has it. \<^verbatim>\<open>readBuffer.unmap()\<close> is one statement of the straight-line
  \<^verbatim>\<open>try\<close> block, after the byte copy; there is no \<^verbatim>\<open>finally\<close>. The staging buffer is left
  mapped at the end of \<^verbatim>\<open>multiply\<close> exactly when the mapping was granted and
  \<^verbatim>\<open>getMappedRange\<close> or the byte copy then throws. In every other run it is not mapped at
  the end: when an earlier call fails or \<^verbatim>\<open>mapAsync\<close> is rejected (it was never mapped),
  when the run succeeds, and when an error occurs after the byte copy has succeeded.
\<close>

theorem staging_buffer_left_mapped:
  "snd (multiply ar n env s) = Mapped \<longleftrightarrow>
     navigator_gpu env \<and> adapter_found env \<and>
     (\<exists>m. thrown env = Some (GetMappedRange, m) \<or> thrown env = Some (SliceCopy, m))"
  by (simp add: multiply_outcome try_block_mapped)

theorem staging_buffer_left_mapped_witness:
  "snd (multiplyMatrices exact_arith (failing_env MapAsync ''mapping denied'')
          (initial_state :: int page_state)) \<noteq> Mapped \<and>
   snd (multiplyMatrices exact_arith (failing_env BuildResult ''late error'')
          (initial_state :: int page_state)) \<noteq> Mapped \<and>
   snd (multiplyMatrices exact_arith ok_env (initial_state :: int page_state)) \<noteq> Mapped"
  using staging_buffer_left_mapped [where ar = exact_arith and n = MATRIX_SIZE
      and env = "failing_env MapAsync ''mapping denied''" and s = "initial_state :: int page_state"]
    staging_buffer_left_mapped [where ar = exact_arith and n = MATRIX_SIZE
      and env = "failing_env BuildResult ''late error''" and s = "initial_state :: int page_state"]
    staging_buffer_left_mapped [where ar = exact_arith and n = MATRIX_SIZE
      and env = ok_env and s = "initial_state :: int page_state"]
  by (simp add: multiplyMatrices_def failing_env_def ok_env_def)

theorem staging_buffer_counterexample:
  "snd (multiplyMatrices exact_arith (failing_env GetMappedRange ''OperationError'')
          (initial_state :: int page_state)) = Mapped"
  by (simp add: multiplyMatrices_def multiply_outcome try_block_mapped failing_env_def)

section \<open>The identity law (C7)\<close>

text \<open>
  C7 does not hold of the page, by the defect of the code that C1 shows: the access mode
  \<^verbatim>\<open>write\<close> of the output binding makes the shader module invalid, the compute pass does
  not execute, and a run in which no call fails stores the matrix of zeros. From the
  initial state of the page, where A is the identity matrix and B the matrix of 1 to 16,
  \<^verbatim>\<open>multiply\<close> sets no error and stores the zero matrix, not B; from the state with the
  two matrices exchanged it stores the zero matrix, not A.
\<close>

theorem multiply_identity_diverges:
  "read_matrix (heap (initial_state :: int page_state)) (matrixA (initial_state :: int page_state)) =
     identity_matrix MATRIX_SIZE \<and>
   read_matrix (heap (initial_state :: int page_state)) (matrixB (initial_state :: int page_state)) =
     [[1, 2, 3, 4], [5, 6, 7, 8], [9, 10, 11, 12], [13, 14, 15, 16]] \<and>
   resultMatrix (fst (multiplyMatrices exact_arith ok_env (initial_state :: int page_state))) =
     Some [[0, 0, 0, 0], [0, 0, 0, 0], [0, 0, 0, 0], [0, 0, 0, 0]] \<and>
   error (fst (multiplyMatrices exact_arith ok_env (initial_state :: int page_state))) = None \<and>
   read_matrix (heap swapped_state) (matrixA swapped_state) =
     [[1, 2, 3, 4], [5, 6, 7, 8], [9, 10, 11, 12], [13, 14, 15, 16]] \<and>
   read_matrix (heap swapped_state) (matrixB swapped_state) = identity_matrix MATRIX_SIZE \<and>
   resultMatrix (fst (multiplyMatrices exact_arith ok_env swapped_state)) =
     Some [[0, 0, 0, 0], [0, 0, 0, 0], [0, 0, 0, 0], [0, 0, 0, 0]] \<and>
   error (fst (multiplyMatrices exact_arith ok_env swapped_state)) = None"
proof -
  have env: "navigator_gpu ok_env" "adapter_found ok_env" "thrown ok_env = None"
    by (simp_all add: ok_env_def)
  have zeros: "createDefaultMatrix MATRIX_SIZE =
      [[0, 0, 0, 0], [0, 0, 0, 0], [0, 0, 0, 0], [0, 0, 0, 0 :: int]]"
    by (simp add: createDefaultMatrix_def MATRIX_SIZE_def numeral_eq_Suc)
  show ?thesis
    using env
    by (simp add: multiplyMatrices_def multiply_zero zeros initial_matrixA_identity
        initial_matrixB swapped_matrices)
qed

section \<open>The input matrices are not changed (C8)\<close>

text \<open>
  C8. In every run of \<^verbatim>\<open>multiply\<close>, failing or not, the heap of the page state (every
  stored array) and the references \<^verbatim>\<open>matrixA\<close> and \<^verbatim>\<open>matrixB\<close> are the same after the call
  as before it, so both input matrices hold the same elements.
\<close>

theorem multiply_preserves_inputs:
  "heap (fst (multiply ar n env s)) = heap s \<and>
   matrixA (fst (multiply ar n env s)) = matrixA s \<and>
   matrixB (fst (multiply ar n env s)) = matrixB s \<and>
   read_matrix (heap (fst (multiply ar n env s))) (matrixA (fst (multiply ar n env s))) =
     read_matrix (heap s) (matrixA s) \<and>
   read_matrix (heap (fst (multiply ar n env s))) (matrixB (fst (multiply ar n env s))) =
     read_matrix (heap s) (matrixB s)"
  by (simp add: multiply_outcome split: sum.splits)

theorem multiply_preserves_inputs_witness:
  "read_matrix (heap (fst (multiplyMatrices exact_arith ok_env (initial_state :: int page_state))))
     (matrixB (fst (multiplyMatrices exact_arith ok_env (initial_state :: int page_state)))) =
   [[1, 2, 3, 4], [5, 6, 7, 8], [9, 10, 11, 12], [13, 14, 15, 16]] \<and>
   read_matrix (heap (fst (multiplyMatrices exact_arith no_gpu_env (initial_state :: int page_state))))
     (matrixA (fst (multiplyMatrices exact_arith no_gpu_env (initial_state :: int page_state)))) =
   [[1, 0, 0, 0], [0, 1, 0, 0], [0, 0, 1, 0], [0, 0, 0, 1]]"
  using multiply_preserves_inputs [where ar = exact_arith and n = MATRIX_SIZE
      and env = ok_env and s = "initial_state :: int page_state"]
    multiply_preserves_inputs [where ar = exact_arith and n = MATRIX_SIZE
      and env = no_gpu_env and s = "initial_state :: int page_state"]
  by (simp add: multiplyMatrices_def initial_matrixA initial_matrixB)

section \<open>Determinism (C9)\<close>

text \<open>
  C9. The kernel: a work item inside the range stores, at the index of its cell, the sum
  of the products added in the fixed order \<open>i = 0, 1, ..., n - 1\<close>, the left fold over
  \<open>[0..<n]\<close>, for arithmetic of which no law (such as associativity) is assumed. The
  dispatch: every order (and repetition) in which the work items of the dispatched grid
  run leaves the same buffer, which holds that left fold in the cell of every work item
  inside the range. The page: two runs of \<^verbatim>\<open>multiply\<close> in which no call fails, from page
  states that hold equal matrices, store equal results, whatever else the states hold
  and even when the arithmetic of the device differs between the runs; in the page as
  it is written the dispatch does not execute (see C1) and both runs store the matrix of
  zeros.
\<close>

theorem multiply_deterministic:
  "(idx < n \<and> idy < n \<longrightarrow>
      shader_main ar n numsA numsB (idx, idy) =
        Some (u32 (idy * n + idx),
          foldl (\<lambda>acc i. fadd ar acc
                   (fmul ar (load numsA (u32 (idy * n + i))) (load numsB (u32 (i * n + idx)))))
            0 [0..<n])) \<and>
   (length out = n * n \<and> n * n \<le> 4294967296 \<and> set ids = set (global_invocation_ids counts) \<longrightarrow>
      run_items ar n numsA numsB out ids = dispatchWorkgroups ar n numsA numsB out counts \<and>
      (\<forall>idx idy. idx < n \<and> idy < n \<and> (idx, idy) \<in> set ids \<longrightarrow>
         run_items ar n numsA numsB out ids ! (idy * n + idx) =
           foldl (\<lambda>acc i. fadd ar acc
                    (fmul ar (load numsA (u32 (idy * n + i))) (load numsB (u32 (i * n + idx)))))
             0 [0..<n])) \<and>
   (navigator_gpu env \<and> adapter_found env \<and> thrown env = None \<and>
    navigator_gpu env' \<and> adapter_found env' \<and> thrown env' = None \<and>
    read_matrix (heap s) (matrixA s) = read_matrix (heap s') (matrixA s') \<and>
    read_matrix (heap s) (matrixB s) = read_matrix (heap s') (matrixB s') \<longrightarrow>
      resultMatrix (fst (multiply ar n env s)) = resultMatrix (fst (multiply ar' n env' s')))"
proof (intro conjI impI allI)
  assume "idx < n \<and> idy < n"
  then show "shader_main ar n numsA numsB (idx, idy) =
        Some (u32 (idy * n + idx),
          foldl (\<lambda>acc i. fadd ar acc
                   (fmul ar (load numsA (u32 (idy * n + i))) (load numsB (u32 (i * n + idx)))))
            0 [0..<n])"
    by (simp add: shader_main_fold)
next
  assume "length out = n * n \<and> n * n \<le> 4294967296 \<and> set ids = set (global_invocation_ids counts)"
  then show "run_items ar n numsA numsB out ids = dispatchWorkgroups ar n numsA numsB out counts"
    unfolding dispatchWorkgroups_def by (intro run_items_schedule) simp_all
next
  fix x y
  assume a: "length out = n * n \<and> n * n \<le> 4294967296 \<and> set ids = set (global_invocation_ids counts)"
    and b: "x < n \<and> y < n \<and> (x, y) \<in> set ids"
  then show "run_items ar n numsA numsB out ids ! (y * n + x) =
           foldl (\<lambda>acc i. fadd ar acc
                    (fmul ar (load numsA (u32 (y * n + i))) (load numsB (u32 (i * n + x)))))
             0 [0..<n]"
    by (simp add: run_items_nth sum_loop_foldl)
next
  assume "navigator_gpu env \<and> adapter_found env \<and> thrown env = None \<and>
    navigator_gpu env' \<and> adapter_found env' \<and> thrown env' = None \<and>
    read_matrix (heap s) (matrixA s) = read_matrix (heap s') (matrixA s') \<and>
    read_matrix (heap s) (matrixB s) = read_matrix (heap s') (matrixB s')"
  then show "resultMatrix (fst (multiply ar n env s)) = resultMatrix (fst (multiply ar' n env' s'))"
    by (simp add: multiply_zero)
qed


theorem multiply_deterministic_witness:
  "shader_main exact_arith 4 [1, 2, 3, 4, 5, 6, 7, 8, 9, 10, 11, 12, 13, 14, 15, 16 :: int]
      [1, 0, 0, 0, 0, 1, 0, 0, 0, 0, 1, 0, 0, 0, 0, 1] (2, 1) = Some (6, 7) \<and>
   run_items exact_arith 4 [1, 2, 3, 4, 5, 6, 7, 8, 9, 10, 11, 12, 13, 14, 15, 16 :: int]
      [1, 0, 0, 0, 0, 1, 0, 0, 0, 0, 1, 0, 0, 0, 0, 1] (replicate 16 0)
      (rev (global_invocation_ids (workgroup_counts 4))) =
   dispatchWorkgroups exact_arith 4 [1, 2, 3, 4, 5, 6, 7, 8, 9, 10, 11, 12, 13, 14, 15, 16]
      [1, 0, 0, 0, 0, 1, 0, 0, 0, 0, 1, 0, 0, 0, 0, 1] (replicate 16 0) (workgroup_counts 4) \<and>
   run_items exact_arith 4 [1, 2, 3, 4, 5, 6, 7, 8, 9, 10, 11, 12, 13, 14, 15, 16 :: int]
      [1, 0, 0, 0, 0, 1, 0, 0, 0, 0, 1, 0, 0, 0, 0, 1] (replicate 16 0)
      (rev (global_invocation_ids (workgroup_counts 4))) ! 6 = 7 \<and>
   resultMatrix (fst (multiply exact_arith 4 ok_env (initial_state :: int page_state))) =
   resultMatrix (fst (multiply exact_arith 4 ok_env
      ((initial_state :: int page_state)\<lparr>error := Some ''earlier failure''\<rparr>)))"
proof -
  let ?A = "[1, 2, 3, 4, 5, 6, 7, 8, 9, 10, 11, 12, 13, 14, 15, 16 :: int]"
  let ?B = "[1, 0, 0, 0, 0, 1, 0, 0, 0, 0, 1, 0, 0, 0, 0, 1 :: int]"
  let ?out = "replicate 16 (0::int)"
  let ?ids = "rev (global_invocation_ids (workgroup_counts 4))"
  let ?s = "initial_state :: int page_state"
  note inst = multiply_deterministic [where n = 4 and ar = exact_arith and ar' = exact_arith
      and numsA = ?A and numsB = ?B and out = ?out and ids = ?ids and counts = "workgroup_counts 4"
      and idx = 2 and idy = 1 and env = ok_env and env' = ok_env and s = ?s
      and s' = "?s\<lparr>error := Some ''earlier failure''\<rparr>"]
  have upt4: "[0..<4] = [0, 1, 2, 3]"
    by code_simp
  have fold7: "foldl (\<lambda>acc i. fadd exact_arith acc
        (fmul exact_arith (load ?A (u32 (1 * 4 + i))) (load ?B (u32 (i * 4 + 2))))) 0 [0..<4] = 7"
    unfolding upt4 by (simp add: exact_arith_def load_def u32_def)
  have h1: "(2::nat) < 4 \<and> (1::nat) < 4"
    by simp
  have h2: "length ?out = 4 * 4 \<and> (4::nat) * 4 \<le> 4294967296 \<and>
      set ?ids = set (global_invocation_ids (workgroup_counts 4))"
    by simp
  have h3: "(2::nat) < 4 \<and> (1::nat) < 4 \<and> (2, 1) \<in> set ?ids"
    by (simp add: workgroup_counts_def global_invocation_ids_iff)
  have h4: "navigator_gpu ok_env \<and> adapter_found ok_env \<and> thrown ok_env = None \<and>
      navigator_gpu ok_env \<and> adapter_found ok_env \<and> thrown ok_env = None \<and>
      read_matrix (heap ?s) (matrixA ?s) =
        read_matrix (heap (?s\<lparr>error := Some ''earlier failure''\<rparr>))
          (matrixA (?s\<lparr>error := Some ''earlier failure''\<rparr>)) \<and>
      read_matrix (heap ?s) (matrixB ?s) =
        read_matrix (heap (?s\<lparr>error := Some ''earlier failure''\<rparr>))
          (matrixB (?s\<lparr>error := Some ''earlier failure''\<rparr>))"
    by (simp add: ok_env_def)
  have c1: "shader_main exact_arith 4 ?A ?B (2, 1) = Some (6, 7)"
    using inst [THEN conjunct1, THEN mp, OF h1] fold7 by (simp add: u32_def)
  have c2: "run_items exact_arith 4 ?A ?B ?out ?ids =
      dispatchWorkgroups exact_arith 4 ?A ?B ?out (workgroup_counts 4)"
    by (rule inst [THEN conjunct2, THEN conjunct1, THEN mp, OF h2, THEN conjunct1])
  have c3: "run_items exact_arith 4 ?A ?B ?out ?ids ! 6 = 7"
    using inst [THEN conjunct2, THEN conjunct1, THEN mp, OF h2, THEN conjunct2, THEN spec,
        THEN spec, THEN mp, OF h3] fold7
    by simp
  have c4: "resultMatrix (fst (multiply exact_arith 4 ok_env ?s)) =
      resultMatrix (fst (multiply exact_arith 4 ok_env (?s\<lparr>error := Some ''earlier failure''\<rparr>)))"
    by (rule inst [THEN conjunct2, THEN conjunct2, THEN mp, OF h4])
  from c1 c2 c3 c4 show ?thesis
    by (intro conjI)
qed

section \<open>Editing a cell (C10)\<close>

text \<open>
  C10. For an edit of an existing cell \<open>(row, col)\<close> of a matrix stored in a well-formed
  heap (the matrix and its rows are allocated), \<^verbatim>\<open>updateMatrix\<close> hands \<^verbatim>\<open>setMatrix\<close> a new
  matrix that reads as the old one with the cell set to 0 when the text does not parse,
  and to the parsed number otherwise; every other cell is as before. Nothing stored
  before the call is written: every array allocated before reads the same afterwards,
  the old matrix included. The new outer array is a fresh object whose entries are the
  old row references, except for \<open>row\<close>, which refers to a fresh copy of the edited row.
\<close>

theorem updateMatrix_copy_on_write:
  assumes "matrix < mat_next (heap s)"
    and "\<forall>r \<in> set (mat_store (heap s) matrix). r < row_next (heap s)"
    and "row < length (mat_store (heap s) matrix)"
    and "col < length (row_store (heap s) (mat_store (heap s) matrix ! row))"
  shows "\<exists>h'. updateMatrix parseFloat hole matrix setMatrix row col text s =
            Inr (setMatrix (mat_next (heap s)) (s\<lparr>heap := h'\<rparr>)) \<and>
          read_matrix h' (mat_next (heap s)) =
            (read_matrix (heap s) matrix)
              [row := (read_matrix (heap s) matrix ! row)
                 [col := (case parseFloat text of None \<Rightarrow> 0 | Some v \<Rightarrow> v)]] \<and>
          read_matrix h' matrix = read_matrix (heap s) matrix \<and>
          (\<forall>a. a < mat_next (heap s) \<longrightarrow> mat_store h' a = mat_store (heap s) a) \<and>
          (\<forall>a. a < row_next (heap s) \<longrightarrow> row_store h' a = row_store (heap s) a) \<and>
          mat_store h' (mat_next (heap s)) = (mat_store (heap s) matrix)[row := row_next (heap s)]"
proof -
  let ?h = "heap s"
  let ?refs = "mat_store ?h matrix"
  let ?v = "case parseFloat text of None \<Rightarrow> 0 | Some v \<Rightarrow> v"
  let ?h' = "?h\<lparr>mat_next := Suc (mat_next ?h),
                 row_next := Suc (row_next ?h),
                 mat_store := (mat_store ?h)(mat_next ?h := ?refs[row := row_next ?h]),
                 row_store := (row_store ?h)(row_next ?h := (row_store ?h (?refs ! row))[col := ?v])\<rparr>"
  have ne: "matrix \<noteq> mat_next ?h"
    using assms(1) by simp
  have "updateMatrix parseFloat hole matrix setMatrix row col text s =
      Inr (setMatrix (mat_next ?h) (s\<lparr>heap := ?h'\<rparr>))"
    using assms(3,4) ne
    by (simp add: updateMatrix_def alloc_mat_def alloc_row_def Let_def js_assign_def)
  moreover have "read_matrix ?h' (mat_next ?h) =
      (read_matrix ?h matrix)[row := (read_matrix ?h matrix ! row)[col := ?v]]"
    using assms(2,3) by (simp add: read_matrix_def map_fresh_update)
  moreover have "read_matrix ?h' matrix = read_matrix ?h matrix"
    using assms(2) ne by (simp add: read_matrix_def map_fresh_same)
  moreover have "\<forall>a. a < mat_next ?h \<longrightarrow> mat_store ?h' a = mat_store ?h a"
    by simp
  moreover have "\<forall>a. a < row_next ?h \<longrightarrow> row_store ?h' a = row_store ?h a"
    by simp
  moreover have "mat_store ?h' (mat_next ?h) = ?refs[row := row_next ?h]"
    by simp
  ultimately show ?thesis
    by blast
qed

theorem updateMatrix_copy_on_write_witness:
  "\<exists>s'. updateMatrix parse_digit 0 (matrixA (initial_state :: int page_state)) setMatrixA 1 2 ''7''
           (initial_state :: int page_state) = Inr s' \<and>
        read_matrix (heap s') (matrixA s') =
          [[1, 0, 0, 0], [0, 1, 7, 0], [0, 0, 1, 0], [0, 0, 0, 1]] \<and>
        read_matrix (heap s') (matrixA (initial_state :: int page_state)) =
          [[1, 0, 0, 0], [0, 1, 0, 0], [0, 0, 1, 0], [0, 0, 0, 1]]"
proof -
  let ?s = "initial_state :: int page_state"
  from updateMatrix_copy_on_write [OF initial_heap_wf, of parse_digit 0 setMatrixA "''7''"]
  obtain h' where h':
    "updateMatrix parse_digit 0 (matrixA ?s) setMatrixA 1 2 ''7'' ?s =
       Inr (setMatrixA (mat_next (heap ?s)) (?s\<lparr>heap := h'\<rparr>))"
    "read_matrix h' (mat_next (heap ?s)) =
       (read_matrix (heap ?s) (matrixA ?s))
         [1 := (read_matrix (heap ?s) (matrixA ?s) ! 1)
            [2 := (case parse_digit ''7'' of None \<Rightarrow> 0 | Some v \<Rightarrow> v)]]"
    "read_matrix h' (matrixA ?s) = read_matrix (heap ?s) (matrixA ?s)"
    by blast
  show ?thesis
    by (rule exI [of _ "setMatrixA (mat_next (heap ?s)) (?s\<lparr>heap := h'\<rparr>)"])
      (use h' in \<open>simp add: setMatrixA_def initial_matrixA parse_digit_def\<close>)
qed

end
